theory Spec2Isabelle
  imports Complex_Main "HOL-Library.AList"
begin

section \<open>Data model\<close>

subsection \<open>Python values and dictionaries\<close>

text \<open>
  The values a claim, a header field or a setting can hold. A \<open>datetime\<close> is the number
  of microseconds since the epoch, from \<open>datetime.min\<close> to \<open>datetime.max\<close>, and a
  \<open>timedelta\<close> a number of microseconds.
  The only comparisons of \<^verbatim>\<open>src/rest_framework_sso/utils.py\<close> have a string or
  \<open>None\<close> on one side, where Python's \<open>==\<close> is equality of the values below.
\<close>

datatype pyval =
    PNone
  | PBool bool
  | PInt int
  | PFloat real
  | PStr string
  | PList "pyval list"
  | PDict "(string \<times> pyval) list"
  | PDateTime int

text \<open>Python's truth value of an object, as \<open>not x\<close> and \<open>if x:\<close> test it.\<close>

fun truthy :: "pyval \<Rightarrow> bool" where
  "truthy PNone = False"
| "truthy (PBool b) = b"
| "truthy (PInt i) = (i \<noteq> 0)"
| "truthy (PFloat r) = (r \<noteq> 0)"
| "truthy (PStr s) = (s \<noteq> [])"
| "truthy (PList xs) = (xs \<noteq> [])"
| "truthy (PDict kvs) = (kvs \<noteq> [])"
| "truthy (PDateTime t) = True"

text \<open>Lists and dicts cannot be dictionary keys: \<open>x in d\<close> raises \<open>TypeError\<close> for them.\<close>

fun hashable :: "pyval \<Rightarrow> bool" where
  "hashable (PList xs) = False"
| "hashable (PDict kvs) = False"
| "hashable v = True"

text \<open>
  A dict with string keys is an association list; \<open>d[k] = v\<close> is \<^const>\<open>AList.update\<close>,
  which replaces the entry of an existing key where it stands and appends a new one.
\<close>

type_synonym pydict = "(string \<times> pyval) list"

definition py_get :: "pydict \<Rightarrow> string \<Rightarrow> pyval" where
  \<comment> \<open>\<open>d.get(k)\<close>: \<open>None\<close> for a missing key\<close>
  "py_get d k = (case map_of d k of None \<Rightarrow> PNone | Some v \<Rightarrow> v)"

definition py_contains :: "pydict \<Rightarrow> string \<Rightarrow> bool" where
  \<comment> \<open>\<open>k in d\<close>\<close>
  "py_contains d k = (map_of d k \<noteq> None)"

definition py_set :: "pydict \<Rightarrow> string \<Rightarrow> pyval \<Rightarrow> pydict" where
  \<comment> \<open>\<open>d[k] = v\<close>\<close>
  "py_set d k v = AList.update k v d"

subsection \<open>Claim names\<close>

text \<open>
  Modelled from the spec: the module \<open>rest_framework_sso.claims\<close> is not among the source
  files. The spec has the token in the conventional signed-token wire format; the claims
  that the JWT library itself reads there (lines 108 to 123 have it verify expiration,
  audience and issuer) carry the names of that format, \<open>iss\<close>, \<open>aud\<close>, \<open>exp\<close>,
  \<open>iat\<close>, and \<open>kid\<close> in the header. The module's own claims carry the names of the
  spec's vocabulary.
\<close>

definition TOKEN :: string where "TOKEN = ''token_type''"
definition TOKEN_SESSION :: string where "TOKEN_SESSION = ''SESSION''"
definition TOKEN_AUTHORIZATION :: string where "TOKEN_AUTHORIZATION = ''AUTHORIZATION''"
definition ISSUER :: string where "ISSUER = ''iss''"
definition AUDIENCE :: string where "AUDIENCE = ''aud''"
definition EXPIRATION_TIME :: string where "EXPIRATION_TIME = ''exp''"
definition ISSUED_AT :: string where "ISSUED_AT = ''iat''"
definition SESSION_ID :: string where "SESSION_ID = ''session_id''"
definition USER_ID :: string where "USER_ID = ''user_id''"
definition EMAIL :: string where "EMAIL = ''email''"
definition SCOPES :: string where "SCOPES = ''scopes''"
definition KEY_ID :: string where "KEY_ID = ''kid''"

subsection \<open>Errors\<close>

text \<open>
  Every exception the module raises, with its message; \<open>OverflowError\<close> is Python's,
  for a date out of range. \<open>ExternalError\<close> is an
  exception raised inside a library call (a malformed token, a bad signature, an expired
  token, an unreadable file, a key that does not parse), with the library's text.
\<close>

datatype error =
    RuntimeError string
  | TypeError string
  | OverflowError string
  | MissingRequiredClaimError string
  | InvalidIssuerError string
  | InvalidTokenError string
  | InvalidKeyError string
  | AuthenticationFailed string
  | ExternalError string

text \<open>The spec's error taxonomy: a key error is PyJWT's \<open>InvalidKeyError\<close>.\<close>

fun is_key_error :: "error \<Rightarrow> bool" where
  "is_key_error (InvalidKeyError m) = True"
| "is_key_error e = False"

subsection \<open>Settings\<close>

text \<open>
  \<open>api_settings\<close> is imported from \<open>rest_framework_sso.settings\<close>, which is not among the
  source files; the settings the module reads are a parameter of every function. A
  setting that can be \<open>None\<close> is an option. A key mapping gives an issuer one reference
  or a list of references.
\<close>

datatype key_refs = KeyStr string | KeyList "string list"

record settings =
  IDENTITY :: "string option"
  SESSION_AUDIENCE :: "pyval option"
  AUTHORIZATION_AUDIENCE :: "pyval option"
  SESSION_EXPIRATION :: "int option"
  AUTHORIZATION_EXPIRATION :: "int option"
  ACCEPTED_ISSUERS :: "string list option"
  PRIVATE_KEYS :: "(string \<times> key_refs) list"
  PUBLIC_KEYS :: "(string \<times> key_refs) list"
  KEY_STORE_ROOT :: "string option"
  ENCODE_ALGORITHM :: string
  DECODE_ALGORITHMS :: "string list option"
  VERIFY_SIGNATURE :: bool
  VERIFY_EXPIRATION :: bool
  EXPIRATION_LEEWAY :: int
  VERIFY_SESSION_TOKEN :: bool

section \<open>Key resolver\<close>

definition lower_char :: "char \<Rightarrow> char" where
  "lower_char c =
     (let n = (of_char c :: nat) in if 65 \<le> n \<and> n \<le> 90 then char_of (n + 32) else c)"

definition lower :: "string \<Rightarrow> string" where
  \<comment> \<open>\<open>str.lower()\<close> on ASCII\<close>
  "lower s = map lower_char s"

definition endswith :: "string \<Rightarrow> string \<Rightarrow> bool" where
  "endswith s suffix =
     (length suffix \<le> length s \<and> drop (length s - length suffix) s = suffix)"

definition drop_last :: "nat \<Rightarrow> string \<Rightarrow> string" where
  \<comment> \<open>\<open>s[:-n]\<close>; \<open>s[:-0]\<close> is \<open>s[:0]\<close>, the empty string\<close>
  "drop_last n s = (if n = 0 then [] else take (length s - n) s)"

fun get_key_id_loop :: "string list \<Rightarrow> string \<Rightarrow> string" where
  "get_key_id_loop [] file_name = file_name"
| "get_key_id_loop (suffix # suffixes) file_name =
     (if endswith (lower file_name) suffix then drop_last (length suffix) file_name
      else get_key_id_loop suffixes file_name)"

definition get_key_id :: "string \<Rightarrow> string" where
  "get_key_id file_name = get_key_id_loop [''.pem''] file_name"

text \<open>\<open>not keys.get(issuer)\<close>: no entry, an empty string or an empty list.\<close>

fun refs_truthy :: "key_refs option \<Rightarrow> bool" where
  "refs_truthy None = False"
| "refs_truthy (Some (KeyStr s)) = (s \<noteq> [])"
| "refs_truthy (Some (KeyList xs)) = (xs \<noteq> [])"

fun refs_list :: "key_refs option \<Rightarrow> string list" where
  \<comment> \<open>a single reference is wrapped into a one-element list\<close>
  "refs_list None = []"
| "refs_list (Some (KeyStr s)) = [s]"
| "refs_list (Some (KeyList xs)) = xs"

fun key_id_given :: "string option \<Rightarrow> bool" where
  \<comment> \<open>\<open>if key_id:\<close>\<close>
  "key_id_given None = False"
| "key_id_given (Some k) = (k \<noteq> [])"

definition key_matches :: "string option \<Rightarrow> string \<Rightarrow> bool" where
  \<comment> \<open>\<open>key_id in (ik, get_key_id(ik))\<close>\<close>
  "key_matches key_id ik = (key_id = Some ik \<or> key_id = Some (get_key_id ik))"

definition get_key_file_name ::
  "(string \<times> key_refs) list \<Rightarrow> string \<Rightarrow> string option \<Rightarrow> error + string" where
  "get_key_file_name keys issuer key_id =
     (if \<not> refs_truthy (map_of keys issuer)
      then Inl (InvalidKeyError ''No keys defined for the given issuer'')
      else
        let issuer_keys = refs_list (map_of keys issuer);
            issuer_keys = (if key_id_given key_id
                           then filter (key_matches key_id) issuer_keys else issuer_keys)
        in (case issuer_keys of
              [] \<Rightarrow> Inl (InvalidKeyError ''No key matches the given key_id'')
            | ik # _ \<Rightarrow> Inr ik))"

section \<open>External collaborators\<close>

text \<open>
  The JWT library, the PEM parser, the file system, the clock and \<open>six.text_type\<close> are
  not code of this module: they are the fields of an environment, and every function
  below is stated for all environments. A token and a key are whatever the libraries
  make of them (type parameters); a library call returns its result or the text of the
  exception it raises. The result's \<open>.decode('utf-8')\<close> is the identity on tokens.
\<close>

record 'key decode_args =
  da_key :: 'key
  da_verify :: bool
  da_algorithms :: "string list"
  da_verify_exp :: bool
  da_verify_aud :: bool
  da_verify_iss :: bool
  da_leeway :: int
  da_audience :: "string option"
  da_issuer :: string

record ('tok, 'key) env =
  jwt_encode :: "pydict \<Rightarrow> 'key \<Rightarrow> string \<Rightarrow> pydict \<Rightarrow> string + 'tok"
  jwt_get_unverified_header :: "'tok \<Rightarrow> string + pydict"
  jwt_decode_unverified :: "'tok \<Rightarrow> string + pydict"
  jwt_decode :: "'tok \<Rightarrow> 'key decode_args \<Rightarrow> string + pydict"
  load_pem_private_key :: "string \<Rightarrow> string + 'key"
  load_pem_public_key :: "string \<Rightarrow> string + 'key"
  open_read :: "string \<Rightarrow> string + string"
  os_path_join :: "string \<Rightarrow> string \<Rightarrow> string"
  os_path_abspath :: "string \<Rightarrow> string"
  utcnow :: "nat \<Rightarrow> int"
  str_of :: "pyval \<Rightarrow> string"

text \<open>
  The state the module's calls act on: how often the clock has been read (\<open>utcnow env n\<close>
  is the \<open>n\<close>-th reading), and the trace of the key lookups, file reads and verified
  decodes made so far, in order.
\<close>

datatype event =
    KeyLookup string "string option"
  | FileOpened string
  | VerifiedDecode

record world =
  w_clock :: nat
  w_trace :: "event list"

definition ext :: "string + 'a \<Rightarrow> error + 'a" where
  \<comment> \<open>the outcome of a library call\<close>
  "ext r = (case r of Inl m \<Rightarrow> Inl (ExternalError m) | Inr x \<Rightarrow> Inr x)"

definition emit :: "event \<Rightarrow> world \<Rightarrow> world" where
  "emit e w = w\<lparr>w_trace := w_trace w @ [e]\<rparr>"

definition now :: "('tok, 'key) env \<Rightarrow> world \<Rightarrow> int \<times> world" where
  \<comment> \<open>\<open>datetime.utcnow()\<close>\<close>
  "now env w = (utcnow env (w_clock w), w\<lparr>w_clock := Suc (w_clock w)\<rparr>)"

text \<open>
  \<open>datetime + timedelta\<close> raises \<open>OverflowError\<close> when the sum is no \<open>datetime\<close>:
  before the first microsecond of the year 1 or after the last of the year 9999.
\<close>

definition DATETIME_MIN :: int where
  "DATETIME_MIN = - 62135596800000000"

definition DATETIME_MAX :: int where
  "DATETIME_MAX = 253402300799999999"

definition datetime_add :: "int \<Rightarrow> int \<Rightarrow> error + int" where
  "datetime_add t d =
     (if DATETIME_MIN \<le> t + d \<and> t + d \<le> DATETIME_MAX then Inr (t + d)
      else Inl (OverflowError ''date value out of range''))"

text \<open>
  \<open>jwt.encode\<close> is handed the caller's dict. In the releases of PyJWT whose \<open>encode\<close>
  returns bytes, which line 86 decodes, it first overwrites, in that dict, every
  \<open>datetime\<close> under \<open>exp\<close>, \<open>iat\<close> and \<open>nbf\<close> by its timestamp in whole seconds
  (\<open>timegm\<close> of the \<open>utctimetuple\<close>); it then serialises and signs the dict as
  overwritten, which is what \<open>jwt_encode env\<close> stands for.
\<close>

definition timegm :: "int \<Rightarrow> pyval" where
  "timegm t = PInt (t div 1000000)"

definition int_date :: "pydict \<Rightarrow> string \<Rightarrow> pydict" where
  "int_date payload time_claim =
     (case py_get payload time_claim of
        PDateTime t \<Rightarrow> py_set payload time_claim (timegm t)
      | _ \<Rightarrow> payload)"

definition jwt_time_claims :: "string list" where
  "jwt_time_claims = [''exp'', ''iat'', ''nbf'']"

definition jwt_int_dates :: "pydict \<Rightarrow> pydict" where
  "jwt_int_dates payload = foldl int_date payload jwt_time_claims"

definition text_type :: "('tok, 'key) env \<Rightarrow> pyval \<Rightarrow> string" where
  \<comment> \<open>\<open>six.text_type(x)\<close>: a string is itself\<close>
  "text_type env v = (case v of PStr s \<Rightarrow> s | _ \<Rightarrow> str_of env v)"

section \<open>Reading keys\<close>

fun root_given :: "string option \<Rightarrow> bool" where
  \<comment> \<open>\<open>if api_settings.KEY_STORE_ROOT:\<close>\<close>
  "root_given None = False"
| "root_given (Some r) = (r \<noteq> [])"

definition read_key_file ::
  "('tok, 'key) env \<Rightarrow> settings \<Rightarrow> string \<Rightarrow> world \<Rightarrow> (error + string) \<times> world" where
  "read_key_file env cfg file_name w =
     (let file_path =
            (if root_given (KEY_STORE_ROOT cfg)
             then os_path_abspath env (os_path_join env (the (KEY_STORE_ROOT cfg)) file_name)
             else os_path_abspath env file_name)
      in (ext (open_read env file_path), emit (FileOpened file_path) w))"

definition get_private_key_and_key_id ::
  "('tok, 'key) env \<Rightarrow> settings \<Rightarrow> string \<Rightarrow> string option \<Rightarrow> world
     \<Rightarrow> (error + 'key \<times> string) \<times> world" where
  "get_private_key_and_key_id env cfg issuer key_id w =
     (let w1 = emit (KeyLookup issuer key_id) w in
      case get_key_file_name (PRIVATE_KEYS cfg) issuer key_id of
        Inl e \<Rightarrow> (Inl e, w1)
      | Inr file_name \<Rightarrow>
          (case read_key_file env cfg file_name w1 of
             (Inl e, w2) \<Rightarrow> (Inl e, w2)
           | (Inr file_data, w2) \<Rightarrow>
               (case ext (load_pem_private_key env file_data) of
                  Inl e \<Rightarrow> (Inl e, w2)
                | Inr key \<Rightarrow> (Inr (key, get_key_id file_name), w2))))"

definition get_public_key_and_key_id ::
  "('tok, 'key) env \<Rightarrow> settings \<Rightarrow> string \<Rightarrow> string option \<Rightarrow> world
     \<Rightarrow> (error + 'key \<times> string) \<times> world" where
  "get_public_key_and_key_id env cfg issuer key_id w =
     (let w1 = emit (KeyLookup issuer key_id) w in
      case get_key_file_name (PUBLIC_KEYS cfg) issuer key_id of
        Inl e \<Rightarrow> (Inl e, w1)
      | Inr file_name \<Rightarrow>
          (case read_key_file env cfg file_name w1 of
             (Inl e, w2) \<Rightarrow> (Inl e, w2)
           | (Inr file_data, w2) \<Rightarrow>
               (case ext (load_pem_public_key env file_data) of
                  Inl e \<Rightarrow> (Inl e, w2)
                | Inr key \<Rightarrow> (Inr (key, get_key_id file_name), w2))))"

section \<open>Payload builder\<close>

text \<open>
  The session and user models are not among the source files; the builder reads a
  primary key of each and the user's e-mail address.
\<close>

record user =
  user_pk :: pyval
  user_email :: pyval
  is_active :: bool

record session_token =
  session_pk :: pyval
  session_user :: user

definition create_session_payload :: "session_token \<Rightarrow> user \<Rightarrow> pydict" where
  "create_session_payload st u =
     [(TOKEN, PStr TOKEN_SESSION), (SESSION_ID, session_pk st), (USER_ID, user_pk u),
      (EMAIL, user_email u)]"

definition create_authorization_payload :: "session_token \<Rightarrow> user \<Rightarrow> pydict" where
  "create_authorization_payload st u =
     [(TOKEN, PStr TOKEN_AUTHORIZATION), (SESSION_ID, session_pk st), (USER_ID, user_pk u),
      (EMAIL, user_email u), (SCOPES, PList [])]"

section \<open>Claim normalizer and signer\<close>

definition known_token_type :: "pydict \<Rightarrow> bool" where
  \<comment> \<open>\<open>payload.get(claims.TOKEN) in (claims.TOKEN_SESSION, claims.TOKEN_AUTHORIZATION)\<close>\<close>
  "known_token_type payload =
     (py_get payload TOKEN = PStr TOKEN_SESSION \<or> py_get payload TOKEN = PStr TOKEN_AUTHORIZATION)"

definition default_issuer :: "settings \<Rightarrow> pydict \<Rightarrow> error + pydict" where
  \<comment> \<open>lines 46 to 50\<close>
  "default_issuer cfg payload =
     (if \<not> truthy (py_get payload ISSUER) then
        (case IDENTITY cfg of
           Some identity \<Rightarrow> Inr (py_set payload ISSUER (PStr identity))
         | None \<Rightarrow> Inl (RuntimeError ''IDENTITY must be specified in settings''))
      else Inr payload)"

definition default_audience :: "settings \<Rightarrow> pydict \<Rightarrow> error + pydict" where
  \<comment> \<open>lines 52 to 60\<close>
  "default_audience cfg payload =
     (if \<not> truthy (py_get payload AUDIENCE) then
        (if py_get payload TOKEN = PStr TOKEN_SESSION \<and> SESSION_AUDIENCE cfg \<noteq> None
         then Inr (py_set payload AUDIENCE (the (SESSION_AUDIENCE cfg)))
         else if py_get payload TOKEN = PStr TOKEN_AUTHORIZATION
                 \<and> AUTHORIZATION_AUDIENCE cfg \<noteq> None
         then Inr (py_set payload AUDIENCE (the (AUTHORIZATION_AUDIENCE cfg)))
         else if IDENTITY cfg \<noteq> None
         then Inr (py_set payload AUDIENCE (PList [PStr (the (IDENTITY cfg))]))
         else Inl (RuntimeError ''SESSION_AUDIENCE must be specified in settings''))
      else Inr payload)"

definition default_expiration ::
  "('tok, 'key) env \<Rightarrow> settings \<Rightarrow> pydict \<Rightarrow> world \<Rightarrow> (error + pydict) \<times> world" where
  \<comment> \<open>lines 62 to 66\<close>
  "default_expiration env cfg payload w =
     (if \<not> truthy (py_get payload EXPIRATION_TIME) then
        (if py_get payload TOKEN = PStr TOKEN_SESSION \<and> SESSION_EXPIRATION cfg \<noteq> None
         then (let (t, w') = now env w
               in (case datetime_add t (the (SESSION_EXPIRATION cfg)) of
                     Inl e \<Rightarrow> (Inl e, w')
                   | Inr x \<Rightarrow> (Inr (py_set payload EXPIRATION_TIME (PDateTime x)), w')))
         else if py_get payload TOKEN = PStr TOKEN_AUTHORIZATION
                 \<and> AUTHORIZATION_EXPIRATION cfg \<noteq> None
         then (let (t, w') = now env w
               in (case datetime_add t (the (AUTHORIZATION_EXPIRATION cfg)) of
                     Inl e \<Rightarrow> (Inl e, w')
                   | Inr x \<Rightarrow> (Inr (py_set payload EXPIRATION_TIME (PDateTime x)), w')))
         else (Inr payload, w))
      else (Inr payload, w))"

definition default_issued_at ::
  "('tok, 'key) env \<Rightarrow> pydict \<Rightarrow> world \<Rightarrow> pydict \<times> world" where
  \<comment> \<open>lines 68 and 69\<close>
  "default_issued_at env payload w =
     (if \<not> truthy (py_get payload ISSUED_AT)
      then (let (t, w') = now env w in (py_set payload ISSUED_AT (PDateTime t), w'))
      else (payload, w))"

text \<open>
  Lines 71 to 86. \<open>payload[claims.ISSUER] not in api_settings.PRIVATE_KEYS\<close> hashes the
  issuer: a list or a dict raises \<open>TypeError\<close>, and a value that is not a string is no
  key of the mapping. The subscript cannot raise \<open>KeyError\<close>: lines 46 to 50 have found
  the issuer truthy or have assigned it. The dict returned is the caller's after the
  call: as it was when an exception is raised before \<open>jwt.encode\<close> is called, and as
  \<open>jwt.encode\<close> has overwritten it otherwise.
\<close>

definition sign ::
  "('tok, 'key) env \<Rightarrow> settings \<Rightarrow> pydict \<Rightarrow> world \<Rightarrow> (error + 'tok) \<times> pydict \<times> world" where
  "sign env cfg payload w =
     (case py_get payload ISSUER of
        PStr issuer \<Rightarrow>
          (if map_of (PRIVATE_KEYS cfg) issuer = None
           then (Inl (RuntimeError
                   ''Private key for specified issuer was not found in settings''), payload, w)
           else
             (case get_private_key_and_key_id env cfg issuer None w of
                (Inl e, w') \<Rightarrow> (Inl e, payload, w')
              | (Inr (private_key, key_id), w') \<Rightarrow>
                  (let payload' = jwt_int_dates payload
                   in (ext (jwt_encode env payload' private_key (ENCODE_ALGORITHM cfg)
                              [(KEY_ID, PStr key_id)]), payload', w'))))
      | v \<Rightarrow>
          (if hashable v
           then (Inl (RuntimeError
                   ''Private key for specified issuer was not found in settings''), payload, w)
           else (Inl (TypeError ''unhashable type''), payload, w)))"

text \<open>
  \<open>encode_jwt_token\<close> assigns into the dict it is given and hands that dict to
  \<open>jwt.encode\<close>, so the model returns the dict as it stands when the call returns or
  raises, beside the outcome and the world.
\<close>

definition encode_jwt_token ::
  "('tok, 'key) env \<Rightarrow> settings \<Rightarrow> pydict \<Rightarrow> world \<Rightarrow> (error + 'tok) \<times> pydict \<times> world" where
  "encode_jwt_token env cfg payload w =
     (if \<not> known_token_type payload
      then (Inl (RuntimeError ''Unknown token type''), payload, w)
      else
        (case default_issuer cfg payload of
           Inl e \<Rightarrow> (Inl e, payload, w)
         | Inr payload1 \<Rightarrow>
             (case default_audience cfg payload1 of
                Inl e \<Rightarrow> (Inl e, payload1, w)
              | Inr payload2 \<Rightarrow>
                  (case default_expiration env cfg payload2 w of
                     (Inl e, w1) \<Rightarrow> (Inl e, payload2, w1)
                   | (Inr payload3, w1) \<Rightarrow>
                       (let (payload4, w2) = default_issued_at env payload3 w1
                        in sign env cfg payload4 w2)))))"

section \<open>Token verifier\<close>

fun nonempty_or :: "string list option \<Rightarrow> string list \<Rightarrow> string list" where
  \<comment> \<open>\<open>api_settings.DECODE_ALGORITHMS or [api_settings.ENCODE_ALGORITHM]\<close>\<close>
  "nonempty_or None ys = ys"
| "nonempty_or (Some xs) ys = (if xs = [] then ys else xs)"

text \<open>
  Lines 90 to 123: the unverified peek, the allow-list, the key and the verified decode.
\<close>

definition verified_decode ::
  "('tok, 'key) env \<Rightarrow> settings \<Rightarrow> 'tok \<Rightarrow> world \<Rightarrow> (error + pydict) \<times> world" where
  "verified_decode env cfg token w =
     (case ext (jwt_get_unverified_header env token) of
        Inl e \<Rightarrow> (Inl e, w)
      | Inr unverified_header \<Rightarrow>
     (case ext (jwt_decode_unverified env token) of
        Inl e \<Rightarrow> (Inl e, w)
      | Inr unverified_claims \<Rightarrow>
     (let unverified_key_id =
            (if truthy (py_get unverified_header KEY_ID)
             then Some (text_type env (py_get unverified_header KEY_ID)) else None)
      in
      if \<not> py_contains unverified_claims ISSUER
      then (Inl (MissingRequiredClaimError ISSUER), w)
      else
        (let unverified_issuer = text_type env (py_get unverified_claims ISSUER) in
         if ACCEPTED_ISSUERS cfg \<noteq> None
            \<and> unverified_issuer \<notin> set (the (ACCEPTED_ISSUERS cfg))
         then (Inl (InvalidIssuerError ''Invalid issuer''), w)
         else
           (case get_public_key_and_key_id env cfg unverified_issuer unverified_key_id w of
              (Inl e, w1) \<Rightarrow> (Inl e, w1)
            | (Inr (public_key, key_id), w1) \<Rightarrow>
                (ext (jwt_decode env token
                   \<lparr>da_key = public_key,
                    da_verify = VERIFY_SIGNATURE cfg,
                    da_algorithms =
                      nonempty_or (DECODE_ALGORITHMS cfg) [ENCODE_ALGORITHM cfg],
                    da_verify_exp = VERIFY_EXPIRATION cfg,
                    da_verify_aud = True,
                    da_verify_iss = True,
                    da_leeway = EXPIRATION_LEEWAY cfg,
                    da_audience = IDENTITY cfg,
                    da_issuer = unverified_issuer\<rparr>),
                 emit VerifiedDecode w1))))))"

fun identity_value :: "string option \<Rightarrow> pyval" where
  \<comment> \<open>\<open>api_settings.IDENTITY\<close> as a value\<close>
  "identity_value None = PNone"
| "identity_value (Some s) = PStr s"

text \<open>Lines 125 to 134: the checks on the verified payload.\<close>

definition check_claims :: "settings \<Rightarrow> pydict \<Rightarrow> error + pydict" where
  "check_claims cfg payload =
     (if \<not> known_token_type payload
      then Inl (InvalidTokenError ''Unknown token type'')
      else if py_get payload ISSUER \<noteq> identity_value (IDENTITY cfg)
              \<and> py_get payload TOKEN \<noteq> PStr TOKEN_AUTHORIZATION
      then Inl (InvalidTokenError
             ''Only authorization tokens are accepted from other issuers'')
      else if \<not> truthy (py_get payload SESSION_ID)
      then Inl (MissingRequiredClaimError ''Session ID is missing.'')
      else if \<not> truthy (py_get payload USER_ID)
      then Inl (MissingRequiredClaimError ''User ID is missing.'')
      else Inr payload)"

definition decode_jwt_token ::
  "('tok, 'key) env \<Rightarrow> settings \<Rightarrow> 'tok \<Rightarrow> world \<Rightarrow> (error + pydict) \<times> world" where
  "decode_jwt_token env cfg token w =
     (case verified_decode env cfg token w of
        (Inl e, w') \<Rightarrow> (Inl e, w')
      | (Inr payload, w') \<Rightarrow> (check_claims cfg payload, w'))"

section \<open>Identity resolver\<close>

text \<open>
  The datastore behind \<open>SessionToken.objects\<close> and the user model is a parameter: the
  active session with a primary key and a user id, and the user with a primary key, if
  there is one.
\<close>

record datastore =
  find_active_session :: "pyval \<Rightarrow> pyval \<Rightarrow> session_token option"
  find_user :: "pyval \<Rightarrow> user option"

definition authenticate_payload :: "datastore \<Rightarrow> settings \<Rightarrow> pydict \<Rightarrow> error + user" where
  "authenticate_payload ds cfg payload =
     (case
        (if VERIFY_SESSION_TOKEN cfg then
           (case find_active_session ds (py_get payload SESSION_ID) (py_get payload USER_ID) of
              None \<Rightarrow> Inl (AuthenticationFailed ''Invalid token.'')
            | Some session_token \<Rightarrow> Inr (session_user session_token))
         else
           (case find_user ds (py_get payload USER_ID) of
              None \<Rightarrow> Inl (AuthenticationFailed ''Invalid token.'')
            | Some u \<Rightarrow> Inr u))
      of
        Inl e \<Rightarrow> Inl e
      | Inr u \<Rightarrow>
          (if \<not> is_active u
           then Inl (AuthenticationFailed ''User inactive or deleted.'')
           else Inr u))"

section \<open>A symbolic JWT library\<close>

text \<open>
  An instance of the environment on which the theorems below are run: a token is the
  header, the claims and the key it was signed with; the content of a key file is the
  identifier of the key, and a signature verifies under the key of the same content.
  The verified decode checks the signature, the audience and the issuer. The clock's
  \<open>n\<close>-th reading is \<open>1000 + n\<close> seconds after the epoch.
\<close>

datatype sym_token = SymToken (tok_header: pydict) (tok_claims: pydict) (tok_key: string)

fun aud_list :: "pyval \<Rightarrow> pyval list" where
  "aud_list (PList xs) = xs"
| "aud_list v = [v]"

definition sym_decode :: "sym_token \<Rightarrow> string decode_args \<Rightarrow> string + pydict" where
  "sym_decode token args =
     (if da_verify args \<and> da_key args \<noteq> tok_key token
      then Inl ''InvalidSignatureError''
      else if da_verify_aud args
              \<and> identity_value (da_audience args)
                  \<notin> set (aud_list (py_get (tok_claims token) AUDIENCE))
      then Inl ''InvalidAudienceError''
      else if da_verify_iss args \<and> py_get (tok_claims token) ISSUER \<noteq> PStr (da_issuer args)
      then Inl ''InvalidIssuerError''
      else Inr (tok_claims token))"


definition sym_env :: "(sym_token, string) env" where
  "sym_env =
     \<lparr>jwt_encode = (\<lambda>payload key alg headers. Inr (SymToken headers payload key)),
      jwt_get_unverified_header = (\<lambda>token. Inr (tok_header token)),
      jwt_decode_unverified = (\<lambda>token. Inr (tok_claims token)),
      jwt_decode = sym_decode,
      load_pem_private_key = Inr,
      load_pem_public_key = Inr,
      open_read = (\<lambda>path. Inr (get_key_id path)),
      os_path_join = (\<lambda>a b. a @ ''/'' @ b),
      os_path_abspath = (\<lambda>path. path),
      utcnow = (\<lambda>n. (1000 + int n) * 1000000),
      str_of = (\<lambda>v. ''?'')\<rparr>"

text \<open>
  A service \<open>svc-a\<close> that signs with its key \<open>a1\<close> and verifies tokens of itself (keys
  \<open>a0\<close>, \<open>a1\<close>) and of \<open>svc-b\<close> (key \<open>b1\<close>), with no audience or expiration policy and no
  allow-list.
\<close>

definition svc_a :: settings where
  "svc_a =
     \<lparr>IDENTITY = Some ''svc-a'',
      SESSION_AUDIENCE = None,
      AUTHORIZATION_AUDIENCE = None,
      SESSION_EXPIRATION = None,
      AUTHORIZATION_EXPIRATION = None,
      ACCEPTED_ISSUERS = None,
      PRIVATE_KEYS = [(''svc-a'', KeyStr ''a1.pem'')],
      PUBLIC_KEYS =
        [(''svc-a'', KeyList [''a0.pem'', ''a1.pem'']), (''svc-b'', KeyStr ''b1.pem'')],
      KEY_STORE_ROOT = None,
      ENCODE_ALGORITHM = ''RS256'',
      DECODE_ALGORITHMS = None,
      VERIFY_SIGNATURE = True,
      VERIFY_EXPIRATION = True,
      EXPIRATION_LEEWAY = 0,
      VERIFY_SESSION_TOKEN = True\<rparr>"

definition w0 :: world where
  "w0 = \<lparr>w_clock = 0, w_trace = []\<rparr>"

definition session_payload :: pydict where
  "session_payload =
     [(TOKEN, PStr TOKEN_SESSION), (SESSION_ID, PStr ''s1''), (USER_ID, PStr ''u1''),
      (EMAIL, PStr ''a@b.com'')]"

text \<open>The user and the session the payloads \<open>s1\<close>, \<open>u1\<close> are built from.\<close>

definition user_1 :: user where
  "user_1 = \<lparr>user_pk = PStr ''u1'', user_email = PStr ''a@b.com'', is_active = True\<rparr>"

definition session_1 :: session_token where
  "session_1 = \<lparr>session_pk = PStr ''s1'', session_user = user_1\<rparr>"

text \<open>
  Tokens of the other service \<open>svc-b\<close>, addressed to \<open>svc-a\<close> and signed with \<open>b1\<close>.
\<close>

definition foreign_session_token :: sym_token where
  "foreign_session_token =
     SymToken [(KEY_ID, PStr ''b1'')]
       [(TOKEN, PStr TOKEN_SESSION), (SESSION_ID, PStr ''s1''), (USER_ID, PStr ''u1''),
        (ISSUER, PStr ''svc-b''), (AUDIENCE, PStr ''svc-a'')] ''b1''"

definition foreign_authorization_token :: sym_token where
  "foreign_authorization_token =
     SymToken [(KEY_ID, PStr ''b1'')]
       [(TOKEN, PStr TOKEN_AUTHORIZATION), (SESSION_ID, PStr ''s1''), (USER_ID, PStr ''u1''),
        (ISSUER, PStr ''svc-b''), (AUDIENCE, PStr ''svc-a'')] ''b1''"

text \<open>The same service accepting no issuer but itself.\<close>

definition svc_a_only :: settings where
  "svc_a_only = svc_a\<lparr>ACCEPTED_ISSUERS := Some [''svc-a'']\<rparr>"

text \<open>Tokens of \<open>svc-a\<close> with an empty session id and with none.\<close>

definition empty_session_id_token :: sym_token where
  "empty_session_id_token =
     SymToken [(KEY_ID, PStr ''a1'')]
       [(TOKEN, PStr TOKEN_SESSION), (SESSION_ID, PStr []), (USER_ID, PStr ''u1''),
        (ISSUER, PStr ''svc-a''), (AUDIENCE, PStr ''svc-a'')] ''a1''"

definition no_session_id_token :: sym_token where
  "no_session_id_token =
     SymToken [(KEY_ID, PStr ''a1'')]
       [(TOKEN, PStr TOKEN_SESSION), (USER_ID, PStr ''u1''),
        (ISSUER, PStr ''svc-a''), (AUDIENCE, PStr ''svc-a'')] ''a1''"

text \<open>
  A datastore with one user, who is inactive, and one active session of that user.
\<close>

definition user_2 :: user where
  "user_2 = \<lparr>user_pk = PStr ''u2'', user_email = PStr ''c@d.com'', is_active = False\<rparr>"

definition store :: datastore where
  "store =
     \<lparr>find_active_session =
        (\<lambda>pk user_id. if pk = PStr ''s2'' \<and> user_id = PStr ''u2''
                       then Some \<lparr>session_pk = PStr ''s2'', session_user = user_2\<rparr> else None),
      find_user = (\<lambda>pk. if pk = PStr ''u2'' then Some user_2 else None)\<rparr>"

definition unknown_user_payload :: pydict where
  "unknown_user_payload =
     [(TOKEN, PStr TOKEN_SESSION), (SESSION_ID, PStr ''s9''), (USER_ID, PStr ''u9'')]"

definition inactive_user_payload :: pydict where
  "inactive_user_payload =
     [(TOKEN, PStr TOKEN_SESSION), (SESSION_ID, PStr ''s2''), (USER_ID, PStr ''u2'')]"

text \<open>
  The default that lines 53 to 58 assign to a missing audience, and the time to live
  that lines 63 to 66 add to the clock for a missing expiration time, if any.
\<close>

definition audience_default :: "settings \<Rightarrow> pydict \<Rightarrow> pyval option" where
  "audience_default cfg payload =
     (if py_get payload TOKEN = PStr TOKEN_SESSION \<and> SESSION_AUDIENCE cfg \<noteq> None
      then SESSION_AUDIENCE cfg
      else if py_get payload TOKEN = PStr TOKEN_AUTHORIZATION
              \<and> AUTHORIZATION_AUDIENCE cfg \<noteq> None
      then AUTHORIZATION_AUDIENCE cfg
      else if IDENTITY cfg \<noteq> None then Some (PList [PStr (the (IDENTITY cfg))])
      else None)"

definition expiration_default :: "settings \<Rightarrow> pydict \<Rightarrow> int option" where
  "expiration_default cfg payload =
     (if py_get payload TOKEN = PStr TOKEN_SESSION \<and> SESSION_EXPIRATION cfg \<noteq> None
      then SESSION_EXPIRATION cfg
      else if py_get payload TOKEN = PStr TOKEN_AUTHORIZATION
              \<and> AUTHORIZATION_EXPIRATION cfg \<noteq> None
      then AUTHORIZATION_EXPIRATION cfg
      else None)"

text \<open>
  The service without a private key for itself, and with an empty list of references.
\<close>

definition svc_no_keys :: settings where
  "svc_no_keys = svc_a\<lparr>PRIVATE_KEYS := []\<rparr>"

definition svc_empty_keys :: settings where
  "svc_empty_keys = svc_a\<lparr>PRIVATE_KEYS := [(''svc-a'', KeyList [])]\<rparr>"

text \<open>The service with both audiences and a session lifetime of an hour configured.\<close>

definition svc_policy :: settings where
  "svc_policy =
     svc_a\<lparr>SESSION_AUDIENCE := Some (PList [PStr ''svc-a'', PStr ''web'']),
           AUTHORIZATION_AUDIENCE := Some (PList [PStr ''svc-a'', PStr ''api'']),
           SESSION_EXPIRATION := Some 3600000000\<rparr>"

definition authorization_payload :: pydict where
  "authorization_payload =
     [(TOKEN, PStr TOKEN_AUTHORIZATION), (SESSION_ID, PStr ''s1''), (USER_ID, PStr ''u1''),
      (EMAIL, PStr ''a@b.com''), (SCOPES, PList [])]"

text \<open>A service with no identity, and a payload that names its issuer.\<close>

definition svc_anonymous :: settings where
  "svc_anonymous = svc_a\<lparr>IDENTITY := None\<rparr>"

definition issued_payload :: pydict where
  "issued_payload =
     [(TOKEN, PStr TOKEN_SESSION), (SESSION_ID, PStr ''s1''), (USER_ID, PStr ''u1''),
      (ISSUER, PStr ''svc-a'')]"






definition nbf_payload :: pydict where
  "nbf_payload = session_payload @ [(''nbf'', PDateTime 2000500000)]"

definition svc_proxy :: settings where
  "svc_proxy =
     svc_a\<lparr>PRIVATE_KEYS := [(''svc-a'', KeyStr ''a1.pem''), (''svc-b'', KeyStr ''b1.pem'')]\<rparr>"

definition proxy_payload :: pydict where
  "proxy_payload = session_payload @ [(ISSUER, PStr ''svc-b'')]"

definition svc_web :: settings where
  "svc_web = svc_a\<lparr>SESSION_AUDIENCE := Some (PList [PStr ''web''])\<rparr>"

section \<open>What the caller finds, and what the round trip asks of the libraries\<close>

text \<open>A value as \<open>jwt.encode\<close> leaves it under one of its time claims.\<close>

fun as_int_date :: "pyval \<Rightarrow> pyval" where
  "as_int_date (PDateTime t) = timegm t"
| "as_int_date v = v"


section \<open>Unfolding the model\<close>

lemmas claim_names =
  TOKEN_def TOKEN_SESSION_def TOKEN_AUTHORIZATION_def ISSUER_def AUDIENCE_def
  EXPIRATION_TIME_def ISSUED_AT_def SESSION_ID_def USER_ID_def EMAIL_def SCOPES_def KEY_ID_def

lemmas model_defs =
  encode_jwt_token_def known_token_type_def default_issuer_def default_audience_def
  default_expiration_def default_issued_at_def sign_def get_private_key_and_key_id_def
  get_public_key_and_key_id_def get_key_file_name_def read_key_file_def emit_def now_def
  ext_def py_get_def py_set_def py_contains_def key_matches_def get_key_id_def endswith_def
  lower_def lower_char_def drop_last_def decode_jwt_token_def verified_decode_def
  check_claims_def text_type_def authenticate_payload_def datetime_add_def DATETIME_MIN_def
  DATETIME_MAX_def jwt_int_dates_def jwt_time_claims_def int_date_def timegm_def

lemmas sym_defs = sym_env_def sym_decode_def svc_a_def w0_def session_payload_def

lemma payloads_built:
  "create_session_payload session_1 user_1 = session_payload"
  "create_authorization_payload session_1 user_1 = authorization_payload"
  by (simp_all add: create_session_payload_def create_authorization_payload_def
      session_payload_def authorization_payload_def session_1_def user_1_def)

section \<open>Key resolver: selection by key identifier\<close>

lemma filter_first_find:
  "(case filter P xs of [] \<Rightarrow> a | x # _ \<Rightarrow> b x) =
     (case List.find P xs of None \<Rightarrow> a | Some x \<Rightarrow> b x)"
  by (induction xs) auto

lemma get_key_id_pem:
  "get_key_id file_name =
     (if endswith (lower file_name) ''.pem'' then take (length file_name - 4) file_name
      else file_name)"
  by (simp add: get_key_id_def drop_last_def eval_nat_numeral)

text \<open>
  C3, as the code has it. For an issuer with at least one key reference and a non-empty
  \<open>key_id\<close>, \<open>get_key_file_name\<close> returns the first reference that equals \<open>key_id\<close>
  verbatim or whose derived identifier (the reference without a final \<open>.pem\<close>, matched
  in any letter case, else the reference itself) equals \<open>key_id\<close>; it fails with
  \<open>InvalidKeyError\<close>, no key matches, when there is none.
\<close>

theorem get_key_file_name_by_key_id:
  assumes "refs_truthy (map_of keys issuer)" and "key_id \<noteq> []"
  shows "get_key_file_name keys issuer (Some key_id) =
           (case List.find
                   (\<lambda>ik. ik = key_id
                       \<or> (if endswith (lower ik) ''.pem'' then take (length ik - 4) ik else ik)
                           = key_id)
                   (refs_list (map_of keys issuer)) of
              None \<Rightarrow> Inl (InvalidKeyError ''No key matches the given key_id'')
            | Some ik \<Rightarrow> Inr ik)"
proof -
  have m: "key_matches (Some key_id) =
             (\<lambda>ik. ik = key_id
                 \<or> (if endswith (lower ik) ''.pem'' then take (length ik - 4) ik else ik)
                     = key_id)"
    by (auto simp: key_matches_def fun_eq_iff get_key_id_pem)
  show ?thesis
    using assms by (simp add: get_key_file_name_def m filter_first_find)
qed

theorem get_key_file_name_by_key_id_witness:
  "get_key_file_name (PUBLIC_KEYS svc_a) ''svc-a'' (Some ''a1'') = Inr ''a1.pem''
   \<and> get_key_file_name (PUBLIC_KEYS svc_a) ''svc-a'' (Some ''a2'')
       = Inl (InvalidKeyError ''No key matches the given key_id'')"
proof -
  have h: "refs_truthy (map_of (PUBLIC_KEYS svc_a) ''svc-a'')"
    by (simp add: svc_a_def)
  have k1: "''a1'' \<noteq> ([] :: string)" and k2: "''a2'' \<noteq> ([] :: string)"
    by simp_all
  show ?thesis
    using get_key_file_name_by_key_id [OF h k1] get_key_file_name_by_key_id [OF h k2]
    by (simp add: svc_a_def endswith_def lower_def lower_char_def)
qed

text \<open>
  C3, as the spec has it, fails: the reference \<open>a.pem\<close> has the derived identifier \<open>a\<close>,
  yet it is selected for the key identifier \<open>a.pem\<close>.
\<close>

theorem get_key_file_name_verbatim_match:
  "get_key_id ''a.pem'' \<noteq> ''a.pem''
   \<and> get_key_file_name [(''svc'', KeyList [''a.pem''])] ''svc'' (Some ''a.pem'') = Inr ''a.pem''"
  by (simp add: get_key_file_name_def key_matches_def get_key_id_def endswith_def lower_def
      lower_char_def drop_last_def)

section \<open>Token verifier: the cross-issuer policy\<close>

lemma verified_foreign_session:
  "verified_decode sym_env svc_a foreign_session_token w0 =
     (Inr (tok_claims foreign_session_token),
      \<lparr>w_clock = 0,
       w_trace = [KeyLookup ''svc-b'' (Some ''b1''), FileOpened ''b1.pem'', VerifiedDecode]\<rparr>)"
  by (simp add: model_defs sym_defs claim_names foreign_session_token_def Let_def)

lemma verified_foreign_authorization:
  "verified_decode sym_env svc_a foreign_authorization_token w0 =
     (Inr (tok_claims foreign_authorization_token),
      \<lparr>w_clock = 0,
       w_trace = [KeyLookup ''svc-b'' (Some ''b1''), FileOpened ''b1.pem'', VerifiedDecode]\<rparr>)"
  by (simp add: model_defs sym_defs claim_names foreign_authorization_token_def Let_def)

text \<open>
  C1. Whenever the verified decode (lines 90 to 123) has returned a payload whose issuer
  differs from \<open>api_settings.IDENTITY\<close>: a \<open>SESSION\<close> payload is rejected by
  \<open>decode_jwt_token\<close> with \<open>InvalidTokenError\<close>, only authorization tokens are accepted
  from other issuers, whatever the settings for signature and expiration verification
  and the allow-list are; an \<open>AUTHORIZATION\<close> payload passes this check, and is returned
  when its session id and user id are truthy.
\<close>

theorem decode_cross_issuer_policy:
  assumes "verified_decode env cfg token w = (Inr payload, w')"
    and "py_get payload ISSUER \<noteq> identity_value (IDENTITY cfg)"
  shows "(py_get payload TOKEN = PStr TOKEN_SESSION \<longrightarrow>
            decode_jwt_token env cfg token w =
              (Inl (InvalidTokenError
                 ''Only authorization tokens are accepted from other issuers''), w'))
       \<and> (py_get payload TOKEN = PStr TOKEN_AUTHORIZATION \<longrightarrow>
            decode_jwt_token env cfg token w =
              (if \<not> truthy (py_get payload SESSION_ID)
               then Inl (MissingRequiredClaimError ''Session ID is missing.'')
               else if \<not> truthy (py_get payload USER_ID)
               then Inl (MissingRequiredClaimError ''User ID is missing.'')
               else Inr payload, w'))"
  using assms
  by (simp add: decode_jwt_token_def check_claims_def known_token_type_def
      TOKEN_SESSION_def TOKEN_AUTHORIZATION_def)

theorem decode_cross_issuer_policy_witness:
  "decode_jwt_token sym_env svc_a foreign_session_token w0 =
     (Inl (InvalidTokenError ''Only authorization tokens are accepted from other issuers''),
      \<lparr>w_clock = 0,
       w_trace = [KeyLookup ''svc-b'' (Some ''b1''), FileOpened ''b1.pem'', VerifiedDecode]\<rparr>)
   \<and> decode_jwt_token sym_env svc_a foreign_authorization_token w0 =
     (Inr (tok_claims foreign_authorization_token),
      \<lparr>w_clock = 0,
       w_trace = [KeyLookup ''svc-b'' (Some ''b1''), FileOpened ''b1.pem'', VerifiedDecode]\<rparr>)"
proof -
  have s: "py_get (tok_claims foreign_session_token) ISSUER \<noteq> identity_value (IDENTITY svc_a)"
    and a: "py_get (tok_claims foreign_authorization_token) ISSUER
              \<noteq> identity_value (IDENTITY svc_a)"
    by (simp_all add: py_get_def svc_a_def claim_names foreign_session_token_def
        foreign_authorization_token_def)
  show ?thesis
    using decode_cross_issuer_policy [OF verified_foreign_session s]
      decode_cross_issuer_policy [OF verified_foreign_authorization a]
    by (simp add: py_get_def claim_names foreign_session_token_def
        foreign_authorization_token_def)
qed

section \<open>Token verifier: the allow-list comes first\<close>

text \<open>
  Once the allow-list has let the issuer through, the next thing the trace records is
  the lookup of that issuer's key: every key lookup, file read and verified decode of a
  call stands after the allow-list check.
\<close>

lemma key_lookup_after_allow_list:
  assumes "jwt_get_unverified_header env token = Inr unverified_header"
    and "jwt_decode_unverified env token = Inr unverified_claims"
    and "py_contains unverified_claims ISSUER"
    and "ACCEPTED_ISSUERS cfg = None
         \<or> text_type env (py_get unverified_claims ISSUER) \<in> set (the (ACCEPTED_ISSUERS cfg))"
  shows "\<exists>key_id rest. w_trace (snd (decode_jwt_token env cfg token w)) =
           w_trace w @ KeyLookup (text_type env (py_get unverified_claims ISSUER)) key_id # rest"
  using assms
  by (auto simp: decode_jwt_token_def verified_decode_def ext_def get_public_key_and_key_id_def
      read_key_file_def emit_def Let_def split: sum.splits prod.splits)

text \<open>
  C2. When an allow-list is configured and the issuer claim of the unverified peek, as
  text, is not in it, \<open>decode_jwt_token\<close> raises \<open>InvalidIssuerError\<close> and leaves the
  world as it found it: the trace has no key lookup, no file read and no verified decode
  of this call, so the rejection comes before the key is resolved and before the
  signature is verified.
\<close>

theorem allow_list_before_key_resolution:
  assumes "jwt_get_unverified_header env token = Inr unverified_header"
    and "jwt_decode_unverified env token = Inr unverified_claims"
    and "py_contains unverified_claims ISSUER"
    and "ACCEPTED_ISSUERS cfg = Some accepted"
    and "text_type env (py_get unverified_claims ISSUER) \<notin> set accepted"
  shows "decode_jwt_token env cfg token w = (Inl (InvalidIssuerError ''Invalid issuer''), w)"
  using assms by (simp add: decode_jwt_token_def verified_decode_def ext_def)

theorem allow_list_before_key_resolution_witness:
  "decode_jwt_token sym_env svc_a_only foreign_authorization_token w0 =
     (Inl (InvalidIssuerError ''Invalid issuer''), w0)"
proof -
  have h: "jwt_get_unverified_header sym_env foreign_authorization_token =
             Inr (tok_header foreign_authorization_token)"
    and c: "jwt_decode_unverified sym_env foreign_authorization_token =
             Inr (tok_claims foreign_authorization_token)"
    by (simp_all add: sym_env_def)
  have i: "py_contains (tok_claims foreign_authorization_token) ISSUER"
    by (simp add: py_contains_def foreign_authorization_token_def claim_names)
  have a: "ACCEPTED_ISSUERS svc_a_only = Some [''svc-a'']"
    by (simp add: svc_a_only_def)
  have n: "text_type sym_env (py_get (tok_claims foreign_authorization_token) ISSUER)
             \<notin> set [''svc-a'']"
    by (simp add: text_type_def py_get_def foreign_authorization_token_def claim_names)
  show ?thesis
    by (rule allow_list_before_key_resolution [OF h c i a n])
qed

section \<open>Token verifier: session id and user id\<close>

lemma py_get_delete:
  "py_get (AList.delete k d) k' = (if k' = k then PNone else py_get d k')"
  by (simp add: py_get_def delete_conv')

lemma verified_empty_session_id:
  "verified_decode sym_env svc_a empty_session_id_token w0 =
     (Inr (tok_claims empty_session_id_token),
      \<lparr>w_clock = 0,
       w_trace = [KeyLookup ''svc-a'' (Some ''a1''), FileOpened ''a1.pem'', VerifiedDecode]\<rparr>)"
  by (simp add: model_defs sym_defs claim_names empty_session_id_token_def Let_def)

lemma verified_no_session_id:
  "verified_decode sym_env svc_a no_session_id_token w0 =
     (Inr (AList.delete SESSION_ID (tok_claims empty_session_id_token)),
      \<lparr>w_clock = 0,
       w_trace = [KeyLookup ''svc-a'' (Some ''a1''), FileOpened ''a1.pem'', VerifiedDecode]\<rparr>)"
  by (simp add: model_defs sym_defs claim_names empty_session_id_token_def
      no_session_id_token_def Let_def AList.delete_eq)

text \<open>
  C9. A verified payload whose session id or user id is present but falsy (an empty
  string, 0, \<open>None\<close>, or any other falsy value) gets from \<open>decode_jwt_token\<close> the very
  outcome of the payload without that claim; when the token type and the cross-issuer
  check pass, that outcome is \<open>MissingRequiredClaimError\<close>, for the session id if that
  is falsy and for the user id otherwise.
\<close>

theorem decode_falsy_identifier:
  assumes "verified_decode env cfg token w = (Inr payload, w')"
    and "verified_decode env cfg token2 v = (Inr (AList.delete k payload), v')"
    and "k = SESSION_ID \<or> k = USER_ID"
    and "\<not> truthy (py_get payload k)"
  shows "fst (decode_jwt_token env cfg token w) = fst (decode_jwt_token env cfg token2 v)
       \<and> (known_token_type payload
            \<and> (py_get payload ISSUER = identity_value (IDENTITY cfg)
                 \<or> py_get payload TOKEN = PStr TOKEN_AUTHORIZATION)
          \<longrightarrow> fst (decode_jwt_token env cfg token w) =
                Inl (MissingRequiredClaimError
                       (if \<not> truthy (py_get payload SESSION_ID)
                        then ''Session ID is missing.'' else ''User ID is missing.'')))"
  using assms
  by (auto simp: decode_jwt_token_def check_claims_def known_token_type_def py_get_delete
      claim_names)

theorem decode_falsy_identifier_witness:
  "fst (decode_jwt_token sym_env svc_a empty_session_id_token w0)
     = fst (decode_jwt_token sym_env svc_a no_session_id_token w0)
   \<and> fst (decode_jwt_token sym_env svc_a empty_session_id_token w0)
     = Inl (MissingRequiredClaimError ''Session ID is missing.'')"
proof -
  have k: "SESSION_ID = SESSION_ID \<or> SESSION_ID = USER_ID"
    by simp
  have f: "\<not> truthy (py_get (tok_claims empty_session_id_token) SESSION_ID)"
    by (simp add: py_get_def empty_session_id_token_def claim_names)
  have c: "known_token_type (tok_claims empty_session_id_token)"
    "py_get (tok_claims empty_session_id_token) ISSUER = identity_value (IDENTITY svc_a)"
    by (simp_all add: known_token_type_def py_get_def empty_session_id_token_def svc_a_def
        claim_names)
  show ?thesis
    using decode_falsy_identifier [OF verified_empty_session_id verified_no_session_id k f] c f
    by auto
qed

section \<open>Identity resolver: the failures\<close>

text \<open>
  C6, as the code has it. \<open>authenticate_payload\<close> raises \<open>AuthenticationFailed\<close> in all
  three cases, with or without live-session verification: with the message
  \<open>Invalid token.\<close> when the session or the user is not found, and with the message
  \<open>User inactive or deleted.\<close> when the user found is not active.
\<close>

theorem authenticate_payload_failures:
  "(VERIFY_SESSION_TOKEN cfg
      \<and> find_active_session ds (py_get payload SESSION_ID) (py_get payload USER_ID) = None
    \<longrightarrow> authenticate_payload ds cfg payload = Inl (AuthenticationFailed ''Invalid token.''))
 \<and> (\<not> VERIFY_SESSION_TOKEN cfg \<and> find_user ds (py_get payload USER_ID) = None
    \<longrightarrow> authenticate_payload ds cfg payload = Inl (AuthenticationFailed ''Invalid token.''))
 \<and> (VERIFY_SESSION_TOKEN cfg
      \<and> find_active_session ds (py_get payload SESSION_ID) (py_get payload USER_ID) = Some st
      \<and> \<not> is_active (session_user st)
    \<longrightarrow> authenticate_payload ds cfg payload
          = Inl (AuthenticationFailed ''User inactive or deleted.''))
 \<and> (\<not> VERIFY_SESSION_TOKEN cfg \<and> find_user ds (py_get payload USER_ID) = Some u
      \<and> \<not> is_active u
    \<longrightarrow> authenticate_payload ds cfg payload
          = Inl (AuthenticationFailed ''User inactive or deleted.''))"
  by (simp add: authenticate_payload_def)

theorem authenticate_payload_failures_witness:
  "authenticate_payload store svc_a unknown_user_payload
     = Inl (AuthenticationFailed ''Invalid token.'')
   \<and> authenticate_payload store (svc_a\<lparr>VERIFY_SESSION_TOKEN := False\<rparr>) unknown_user_payload
     = Inl (AuthenticationFailed ''Invalid token.'')
   \<and> authenticate_payload store svc_a inactive_user_payload
     = Inl (AuthenticationFailed ''User inactive or deleted.'')
   \<and> authenticate_payload store (svc_a\<lparr>VERIFY_SESSION_TOKEN := False\<rparr>) inactive_user_payload
     = Inl (AuthenticationFailed ''User inactive or deleted.'')"
  using authenticate_payload_failures [of svc_a store unknown_user_payload]
    authenticate_payload_failures
      [of "svc_a\<lparr>VERIFY_SESSION_TOKEN := False\<rparr>" store unknown_user_payload]
    authenticate_payload_failures
      [of svc_a store inactive_user_payload "\<lparr>session_pk = PStr ''s2'', session_user = user_2\<rparr>"]
    authenticate_payload_failures
      [of "svc_a\<lparr>VERIFY_SESSION_TOKEN := False\<rparr>" store inactive_user_payload _ user_2]
  by (simp add: svc_a_def store_def user_2_def py_get_def unknown_user_payload_def
      inactive_user_payload_def claim_names)

text \<open>
  C6, as the spec has it, fails: an unknown user and an inactive user get different
  failures from the same datastore.
\<close>

theorem authenticate_payload_distinguishes_inactive:
  "authenticate_payload store svc_a unknown_user_payload
     \<noteq> authenticate_payload store svc_a inactive_user_payload"
  by (simp add: authenticate_payload_def svc_a_def store_def user_2_def py_get_def
      unknown_user_payload_def inactive_user_payload_def claim_names)

section \<open>Claim normalizer and signer: the steps\<close>

lemma py_get_py_set: "py_get (py_set d k v) k' = (if k' = k then v else py_get d k')"
  by (simp add: py_get_def py_set_def update_conv')

lemma map_of_py_set: "map_of (py_set d k v) k' = (if k' = k then Some v else map_of d k')"
  by (simp add: py_set_def update_conv')

lemma py_get_cong: "map_of p k = map_of q k \<Longrightarrow> py_get p k = py_get q k"
  by (simp add: py_get_def)

lemma default_issuer_cases:
  "default_issuer cfg p =
     (if truthy (py_get p ISSUER) then Inr p
      else case IDENTITY cfg of
             Some identity \<Rightarrow> Inr (py_set p ISSUER (PStr identity))
           | None \<Rightarrow> Inl (RuntimeError ''IDENTITY must be specified in settings''))"
  by (simp add: default_issuer_def)

lemma default_audience_cases:
  "default_audience cfg p =
     (if truthy (py_get p AUDIENCE) then Inr p
      else case audience_default cfg p of
             Some a \<Rightarrow> Inr (py_set p AUDIENCE a)
           | None \<Rightarrow> Inl (RuntimeError ''SESSION_AUDIENCE must be specified in settings''))"
  by (auto simp: default_audience_def audience_default_def)

lemma datetime_add_Inr: "datetime_add t d = Inr x \<Longrightarrow> x = t + d"
  by (simp add: datetime_add_def split: if_splits)

lemma datetime_add_Inl:
  "datetime_add t d = Inl e \<Longrightarrow> e = OverflowError ''date value out of range''"
  by (simp add: datetime_add_def split: if_splits)

lemma default_expiration_cases:
  "default_expiration env cfg p w =
     (if truthy (py_get p EXPIRATION_TIME) then (Inr p, w)
      else case expiration_default cfg p of
             Some d \<Rightarrow>
               (case datetime_add (utcnow env (w_clock w)) d of
                  Inl e \<Rightarrow> Inl e
                | Inr x \<Rightarrow> Inr (py_set p EXPIRATION_TIME (PDateTime x)),
                w\<lparr>w_clock := Suc (w_clock w)\<rparr>)
           | None \<Rightarrow> (Inr p, w))"
  by (auto simp: default_expiration_def expiration_default_def now_def split: sum.splits)

lemma default_issued_at_cases:
  "default_issued_at env p w =
     (if truthy (py_get p ISSUED_AT) then (p, w)
      else (py_set p ISSUED_AT (PDateTime (utcnow env (w_clock w))),
            w\<lparr>w_clock := Suc (w_clock w)\<rparr>))"
  by (simp add: default_issued_at_def now_def)

text \<open>Each step leaves every other claim as it is.\<close>

lemma default_issuer_frame:
  "default_issuer cfg p = Inr p1 \<Longrightarrow> k \<noteq> ISSUER \<Longrightarrow> map_of p1 k = map_of p k"
  by (auto simp: default_issuer_cases map_of_py_set split: if_splits option.splits)

lemma default_audience_frame:
  "default_audience cfg p = Inr p2 \<Longrightarrow> k \<noteq> AUDIENCE \<Longrightarrow> map_of p2 k = map_of p k"
  by (auto simp: default_audience_cases map_of_py_set split: if_splits option.splits)

lemma default_expiration_frame:
  "default_expiration env cfg p w = (Inr p3, w1) \<Longrightarrow> k \<noteq> EXPIRATION_TIME
     \<Longrightarrow> map_of p3 k = map_of p k"
  by (auto simp: default_expiration_cases map_of_py_set
      split: if_splits option.splits sum.splits)

lemma default_expiration_error:
  "default_expiration env cfg p w = (Inl e, w1)
     \<Longrightarrow> e = OverflowError ''date value out of range''"
  by (auto simp: default_expiration_cases dest: datetime_add_Inl
      split: if_splits option.splits sum.splits)

lemma default_issued_at_frame:
  "k \<noteq> ISSUED_AT \<Longrightarrow> map_of (fst (default_issued_at env p w)) k = map_of p k"
  by (auto simp: default_issued_at_cases map_of_py_set)

lemma audience_default_frame:
  "map_of p TOKEN = map_of q TOKEN \<Longrightarrow> audience_default cfg p = audience_default cfg q"
proof -
  assume "map_of p TOKEN = map_of q TOKEN"
  then have "py_get p TOKEN = py_get q TOKEN"
    by (rule py_get_cong)
  then show ?thesis
    by (simp only: audience_default_def)
qed

lemma expiration_default_frame:
  "map_of p TOKEN = map_of q TOKEN \<Longrightarrow> expiration_default cfg p = expiration_default cfg q"
proof -
  assume "map_of p TOKEN = map_of q TOKEN"
  then have "py_get p TOKEN = py_get q TOKEN"
    by (rule py_get_cong)
  then show ?thesis
    by (simp only: expiration_default_def)
qed

text \<open>What \<open>jwt.encode\<close> leaves in the dict.\<close>

lemma map_of_int_date:
  "map_of (int_date p c) k =
     (if k = c then map_option as_int_date (map_of p k) else map_of p k)"
  by (cases "map_of p c"; cases "py_get p c")
    (auto simp: int_date_def py_get_def map_of_py_set split: option.splits)

lemma map_of_jwt_int_dates:
  "map_of (jwt_int_dates p) k =
     (if k \<in> set jwt_time_claims then map_option as_int_date (map_of p k) else map_of p k)"
  by (auto simp: jwt_int_dates_def jwt_time_claims_def map_of_int_date)

lemma jwt_int_dates_frame:
  "k \<notin> set jwt_time_claims \<Longrightarrow> map_of (jwt_int_dates p) k = map_of p k"
  by (simp add: map_of_jwt_int_dates)

text \<open>Signing: the dict it leaves, what a success means, and which errors it can raise.\<close>

lemma get_key_file_name_None:
  "get_key_file_name keys issuer None =
     (if refs_truthy (map_of keys issuer) then Inr (hd (refs_list (map_of keys issuer)))
      else Inl (InvalidKeyError ''No keys defined for the given issuer''))"
  by (cases "map_of keys issuer" rule: refs_truthy.cases)
    (auto simp: get_key_file_name_def split: list.splits)


lemma sign_frame:
  "k \<notin> set jwt_time_claims \<Longrightarrow> map_of (fst (snd (sign env cfg p w))) k = map_of p k"
  by (auto simp: sign_def Let_def jwt_int_dates_frame
      split: pyval.splits sum.splits prod.splits)

lemma sign_success:
  assumes "sign env cfg p w = (Inr tok, p', w')"
  shows "\<exists>issuer private_key kid.
           py_get p ISSUER = PStr issuer
         \<and> fst (get_private_key_and_key_id env cfg issuer None w) = Inr (private_key, kid)
         \<and> w' = snd (get_private_key_and_key_id env cfg issuer None w)
         \<and> p' = jwt_int_dates p
         \<and> jwt_encode env p' private_key (ENCODE_ALGORITHM cfg) [(KEY_ID, PStr kid)] = Inr tok"
  using assms
  by (auto simp: sign_def ext_def Let_def
      split: pyval.splits if_splits sum.splits prod.splits)

lemma sign_string_issuer:
  assumes "py_get p ISSUER = PStr issuer"
  shows "(fst (sign env cfg p w) =
            Inl (RuntimeError ''Private key for specified issuer was not found in settings''))
           = (map_of (PRIVATE_KEYS cfg) issuer = None)"
    and "(fst (sign env cfg p w) = Inl (InvalidKeyError ''No keys defined for the given issuer''))
           = (map_of (PRIVATE_KEYS cfg) issuer \<noteq> None
              \<and> \<not> refs_truthy (map_of (PRIVATE_KEYS cfg) issuer))"
  using assms
  by (auto simp: sign_def get_private_key_and_key_id_def read_key_file_def ext_def Let_def
      get_key_file_name_None split: if_splits sum.splits prod.splits)

lemma sign_errors:
  assumes "fst (sign env cfg p w) = Inl e"
  shows "e = RuntimeError ''Private key for specified issuer was not found in settings''
       \<or> e = TypeError ''unhashable type''
       \<or> e = InvalidKeyError ''No keys defined for the given issuer''
       \<or> (\<exists>m. e = ExternalError m)"
  using assms
  by (auto simp: sign_def get_private_key_and_key_id_def read_key_file_def ext_def Let_def
      get_key_file_name_None split: pyval.splits if_splits sum.splits prod.splits)

text \<open>The call as the sequence of its steps, and the steps of a call that returned.\<close>

lemma encode_steps:
  assumes "known_token_type payload"
    and "default_issuer cfg payload = Inr p1"
    and "default_audience cfg p1 = Inr p2"
    and "default_expiration env cfg p2 w = (Inr p3, w1)"
    and "default_issued_at env p3 w1 = (p4, w2)"
  shows "encode_jwt_token env cfg payload w = sign env cfg p4 w2"
  using assms by (simp add: encode_jwt_token_def)

lemma encode_overflow:
  assumes "known_token_type payload"
    and "default_issuer cfg payload = Inr p1"
    and "default_audience cfg p1 = Inr p2"
    and "default_expiration env cfg p2 w = (Inl e, w1)"
  shows "encode_jwt_token env cfg payload w = (Inl e, p2, w1)"
  using assms by (simp add: encode_jwt_token_def)

lemma encode_success:
  assumes "encode_jwt_token env cfg payload w = (Inr tok, p', w')"
  shows "\<exists>p1 p2 p3 w1 p4 w2.
           known_token_type payload
         \<and> default_issuer cfg payload = Inr p1
         \<and> default_audience cfg p1 = Inr p2
         \<and> default_expiration env cfg p2 w = (Inr p3, w1)
         \<and> default_issued_at env p3 w1 = (p4, w2)
         \<and> sign env cfg p4 w2 = (Inr tok, p', w')"
  using assms
  by (auto simp: encode_jwt_token_def split: if_splits sum.splits prod.splits)

text \<open>
  Once the audience is settled, the dict keeps every claim that is no time claim, and
  the call raises nothing but the date overflow and the errors of signing.
\<close>

lemma encode_after_audience:
  assumes "known_token_type payload"
    and "default_issuer cfg payload = Inr p1"
    and "default_audience cfg p1 = Inr p2"
  shows "k \<notin> set jwt_time_claims
           \<Longrightarrow> map_of (fst (snd (encode_jwt_token env cfg payload w))) k = map_of p2 k"
    and "fst (encode_jwt_token env cfg payload w) = Inl e
           \<Longrightarrow> e = OverflowError ''date value out of range''
             \<or> e = RuntimeError ''Private key for specified issuer was not found in settings''
             \<or> e = TypeError ''unhashable type''
             \<or> e = InvalidKeyError ''No keys defined for the given issuer''
             \<or> (\<exists>m. e = ExternalError m)"
proof -
  obtain r w1 where x: "default_expiration env cfg p2 w = (r, w1)"
    by (cases "default_expiration env cfg p2 w")
  show "map_of (fst (snd (encode_jwt_token env cfg payload w))) k = map_of p2 k"
    if k: "k \<notin> set jwt_time_claims"
  proof (cases r)
    case (Inl e)
    then show ?thesis
      using encode_overflow [OF assms, of env w e w1] x by simp
  next
    case (Inr p3)
    obtain p4 w2 where i: "default_issued_at env p3 w1 = (p4, w2)"
      by (cases "default_issued_at env p3 w1")
    have ne: "k \<noteq> EXPIRATION_TIME" "k \<noteq> ISSUED_AT"
      using k by (auto simp: jwt_time_claims_def claim_names)
    have "map_of p4 k = map_of p3 k"
      using default_issued_at_frame [OF ne(2), of env p3 w1] i by simp
    moreover have "map_of p3 k = map_of p2 k"
      using default_expiration_frame [OF _ ne(1)] x Inr by simp
    ultimately show ?thesis
      using encode_steps [OF assms, of env w p3 w1 p4 w2] x Inr i
        sign_frame [OF k, of env cfg p4 w2]
      by simp
  qed
  show "e = OverflowError ''date value out of range''
      \<or> e = RuntimeError ''Private key for specified issuer was not found in settings''
      \<or> e = TypeError ''unhashable type''
      \<or> e = InvalidKeyError ''No keys defined for the given issuer''
      \<or> (\<exists>m. e = ExternalError m)"
    if f: "fst (encode_jwt_token env cfg payload w) = Inl e"
  proof (cases r)
    case (Inl e')
    then show ?thesis
      using encode_overflow [OF assms, of env w e' w1] x f
        default_expiration_error [of env cfg p2 w e' w1]
      by simp
  next
    case (Inr p3)
    obtain p4 w2 where i: "default_issued_at env p3 w1 = (p4, w2)"
      by (cases "default_issued_at env p3 w1")
    show ?thesis
      using encode_steps [OF assms, of env w p3 w1 p4 w2] x Inr i f
        sign_errors [of env cfg p4 w2 e]
      by simp
  qed
qed

section \<open>Claim normalizer and signer: the default audience\<close>

text \<open>
  C7. Let \<open>encode_jwt_token\<close> get a payload of a known token type with no (or a falsy)
  audience, whose issuer is given or can be defaulted. Then the dict it leaves, which is
  the one it signs, has for audience: \<open>SESSION_AUDIENCE\<close> for a \<open>SESSION\<close> payload and
  \<open>AUTHORIZATION_AUDIENCE\<close> for an \<open>AUTHORIZATION\<close> payload, when that setting is not
  \<open>None\<close>; the one-element list of \<open>IDENTITY\<close> when the setting for its type is \<open>None\<close>;
  and the call raises the \<open>RuntimeError\<close> of line 60 exactly when \<open>IDENTITY\<close> is
  \<open>None\<close> as well.
\<close>

theorem encode_default_audience:
  assumes "known_token_type payload"
    and "truthy (py_get payload ISSUER) \<or> IDENTITY cfg \<noteq> None"
    and "\<not> truthy (py_get payload AUDIENCE)"
  shows "(py_get payload TOKEN = PStr TOKEN_SESSION \<and> SESSION_AUDIENCE cfg = Some a
            \<longrightarrow> map_of (fst (snd (encode_jwt_token env cfg payload w))) AUDIENCE = Some a)
       \<and> (py_get payload TOKEN = PStr TOKEN_AUTHORIZATION \<and> AUTHORIZATION_AUDIENCE cfg = Some a
            \<longrightarrow> map_of (fst (snd (encode_jwt_token env cfg payload w))) AUDIENCE = Some a)
       \<and> ((py_get payload TOKEN = PStr TOKEN_SESSION \<and> SESSION_AUDIENCE cfg = None
             \<or> py_get payload TOKEN = PStr TOKEN_AUTHORIZATION
                \<and> AUTHORIZATION_AUDIENCE cfg = None)
            \<and> IDENTITY cfg = Some identity
            \<longrightarrow> map_of (fst (snd (encode_jwt_token env cfg payload w))) AUDIENCE
                  = Some (PList [PStr identity]))
       \<and> ((fst (encode_jwt_token env cfg payload w)
              = Inl (RuntimeError ''SESSION_AUDIENCE must be specified in settings''))
            = ((py_get payload TOKEN = PStr TOKEN_SESSION \<and> SESSION_AUDIENCE cfg = None
                 \<or> py_get payload TOKEN = PStr TOKEN_AUTHORIZATION
                    \<and> AUTHORIZATION_AUDIENCE cfg = None)
                \<and> IDENTITY cfg = None))"
proof -
  have "\<exists>p1. default_issuer cfg payload = Inr p1"
    using assms(2) by (auto simp: default_issuer_cases)
  then obtain p1 where p1: "default_issuer cfg payload = Inr p1" ..
  have tok: "map_of p1 TOKEN = map_of payload TOKEN"
    and aud: "map_of p1 AUDIENCE = map_of payload AUDIENCE"
    by (simp_all add: default_issuer_frame [OF p1] claim_names)
  have d: "audience_default cfg p1 = audience_default cfg payload"
    by (rule audience_default_frame [OF tok])
  have f: "\<not> truthy (py_get p1 AUDIENCE)"
    using assms(3) py_get_cong [OF aud] by simp
  have ty: "py_get payload TOKEN = PStr TOKEN_SESSION
            \<or> py_get payload TOKEN = PStr TOKEN_AUTHORIZATION"
    using assms(1) by (simp add: known_token_type_def)
  have ne: "TOKEN_SESSION \<noteq> TOKEN_AUTHORIZATION"
    by (simp add: claim_names)
  show ?thesis
  proof (cases "audience_default cfg payload")
    case None
    have e: "encode_jwt_token env cfg payload w =
               (Inl (RuntimeError ''SESSION_AUDIENCE must be specified in settings''), p1, w)"
      using assms(1) p1 f d None by (simp add: encode_jwt_token_def default_audience_cases)
    have n: "(py_get payload TOKEN = PStr TOKEN_SESSION \<and> SESSION_AUDIENCE cfg = None
               \<or> py_get payload TOKEN = PStr TOKEN_AUTHORIZATION
                  \<and> AUTHORIZATION_AUDIENCE cfg = None)
             \<and> IDENTITY cfg = None"
      using None ty by (auto simp: audience_default_def split: if_splits)
    show ?thesis
      using e n ne by auto
  next
    case (Some v)
    have p2: "default_audience cfg p1 = Inr (py_set p1 AUDIENCE v)"
      using f d Some by (simp add: default_audience_cases)
    have t: "AUDIENCE \<notin> set jwt_time_claims"
      by (simp add: jwt_time_claims_def claim_names)
    have a4: "map_of (fst (snd (encode_jwt_token env cfg payload w))) AUDIENCE = Some v"
      using encode_after_audience(1) [OF assms(1) p1 p2 t, where env = env and w = w]
      by (simp add: map_of_py_set)
    have ok: "fst (encode_jwt_token env cfg payload w)
                \<noteq> Inl (RuntimeError ''SESSION_AUDIENCE must be specified in settings'')"
      using encode_after_audience(2) [OF assms(1) p1 p2, where env = env and w = w
          and e = "RuntimeError ''SESSION_AUDIENCE must be specified in settings''"]
      by auto
    have v: "(py_get payload TOKEN = PStr TOKEN_SESSION \<and> SESSION_AUDIENCE cfg = Some a
                \<longrightarrow> v = a)
           \<and> (py_get payload TOKEN = PStr TOKEN_AUTHORIZATION
                \<and> AUTHORIZATION_AUDIENCE cfg = Some a \<longrightarrow> v = a)
           \<and> ((py_get payload TOKEN = PStr TOKEN_SESSION \<and> SESSION_AUDIENCE cfg = None
                 \<or> py_get payload TOKEN = PStr TOKEN_AUTHORIZATION
                    \<and> AUTHORIZATION_AUDIENCE cfg = None)
                \<and> IDENTITY cfg = Some identity \<longrightarrow> v = PList [PStr identity])
           \<and> \<not> ((py_get payload TOKEN = PStr TOKEN_SESSION \<and> SESSION_AUDIENCE cfg = None
                   \<or> py_get payload TOKEN = PStr TOKEN_AUTHORIZATION
                      \<and> AUTHORIZATION_AUDIENCE cfg = None)
                  \<and> IDENTITY cfg = None)"
      using Some ne by (auto simp: audience_default_def split: if_splits)
    show ?thesis
      using a4 ok v by simp
  qed
qed

theorem encode_default_audience_witness:
  "map_of (fst (snd (encode_jwt_token sym_env svc_policy session_payload w0))) AUDIENCE
     = Some (PList [PStr ''svc-a'', PStr ''web''])
   \<and> map_of (fst (snd (encode_jwt_token sym_env svc_policy authorization_payload w0))) AUDIENCE
     = Some (PList [PStr ''svc-a'', PStr ''api''])
   \<and> map_of (fst (snd (encode_jwt_token sym_env svc_a session_payload w0))) AUDIENCE
     = Some (PList [PStr ''svc-a''])
   \<and> fst (encode_jwt_token sym_env svc_anonymous issued_payload w0)
     = Inl (RuntimeError ''SESSION_AUDIENCE must be specified in settings'')"
proof -
  have k: "known_token_type session_payload" "known_token_type authorization_payload"
    "known_token_type issued_payload"
    by (simp_all add: known_token_type_def py_get_def session_payload_def
        authorization_payload_def issued_payload_def claim_names)
  have i: "truthy (py_get session_payload ISSUER) \<or> IDENTITY svc_policy \<noteq> None"
    "truthy (py_get authorization_payload ISSUER) \<or> IDENTITY svc_policy \<noteq> None"
    "truthy (py_get session_payload ISSUER) \<or> IDENTITY svc_a \<noteq> None"
    "truthy (py_get issued_payload ISSUER) \<or> IDENTITY svc_anonymous \<noteq> None"
    by (simp_all add: svc_policy_def svc_a_def py_get_def issued_payload_def claim_names)
  have a: "\<not> truthy (py_get session_payload AUDIENCE)"
    "\<not> truthy (py_get authorization_payload AUDIENCE)"
    "\<not> truthy (py_get issued_payload AUDIENCE)"
    by (simp_all add: py_get_def session_payload_def authorization_payload_def
        issued_payload_def claim_names)
  have t: "py_get session_payload TOKEN = PStr TOKEN_SESSION"
    "py_get authorization_payload TOKEN = PStr TOKEN_AUTHORIZATION"
    "py_get issued_payload TOKEN = PStr TOKEN_SESSION"
    by (simp_all add: py_get_def session_payload_def authorization_payload_def
        issued_payload_def claim_names)
  have c: "SESSION_AUDIENCE svc_policy = Some (PList [PStr ''svc-a'', PStr ''web''])"
    "AUTHORIZATION_AUDIENCE svc_policy = Some (PList [PStr ''svc-a'', PStr ''api''])"
    "SESSION_AUDIENCE svc_a = None" "IDENTITY svc_a = Some ''svc-a''"
    "SESSION_AUDIENCE svc_anonymous = None" "IDENTITY svc_anonymous = None"
    by (simp_all add: svc_policy_def svc_a_def svc_anonymous_def)
  have r1: "map_of (fst (snd (encode_jwt_token sym_env svc_policy session_payload w0))) AUDIENCE
              = Some (PList [PStr ''svc-a'', PStr ''web''])"
    using encode_default_audience [OF k(1) i(1) a(1),
        where a = "PList [PStr ''svc-a'', PStr ''web'']" and env = sym_env and w = w0]
      t(1) c(1) by simp
  have r2: "map_of (fst (snd (encode_jwt_token sym_env svc_policy authorization_payload w0)))
              AUDIENCE = Some (PList [PStr ''svc-a'', PStr ''api''])"
    using encode_default_audience [OF k(2) i(2) a(2),
        where a = "PList [PStr ''svc-a'', PStr ''api'']" and env = sym_env and w = w0]
      t(2) c(2) by simp
  have r3: "map_of (fst (snd (encode_jwt_token sym_env svc_a session_payload w0))) AUDIENCE
              = Some (PList [PStr ''svc-a''])"
    using encode_default_audience [OF k(1) i(3) a(1),
        where identity = "''svc-a''" and env = sym_env and w = w0] t(1) c(3) c(4)
    by simp
  have r4: "fst (encode_jwt_token sym_env svc_anonymous issued_payload w0)
              = Inl (RuntimeError ''SESSION_AUDIENCE must be specified in settings'')"
    using encode_default_audience [OF k(3) i(4) a(3), where env = sym_env and w = w0] t(3) c(5) c(6) by simp
  show ?thesis
    using r1 r2 r3 r4 by simp
qed

text \<open>The dict after the four defaulting steps, claim by claim.\<close>

lemma normalized_claims:
  assumes "default_issuer cfg payload = Inr p1"
    and "default_audience cfg p1 = Inr p2"
    and "default_expiration env cfg p2 w = (Inr p3, w1)"
    and "default_issued_at env p3 w1 = (p4, w2)"
  shows "\<forall>k. k \<notin> {ISSUER, AUDIENCE, EXPIRATION_TIME, ISSUED_AT}
              \<longrightarrow> map_of p4 k = map_of payload k"
    and "map_of p4 ISSUER =
           (if truthy (py_get payload ISSUER) then map_of payload ISSUER
            else Some (identity_value (IDENTITY cfg)))"
    and "map_of p4 AUDIENCE =
           (if truthy (py_get payload AUDIENCE) then map_of payload AUDIENCE
            else audience_default cfg payload)"
    and "map_of p4 EXPIRATION_TIME =
           (if truthy (py_get payload EXPIRATION_TIME) then map_of payload EXPIRATION_TIME
            else case expiration_default cfg payload of
                   None \<Rightarrow> map_of payload EXPIRATION_TIME
                 | Some d \<Rightarrow> Some (PDateTime (utcnow env (w_clock w) + d)))"
    and "map_of p4 ISSUED_AT =
           (if truthy (py_get payload ISSUED_AT) then map_of payload ISSUED_AT
            else Some (PDateTime (utcnow env
                   (if \<not> truthy (py_get payload EXPIRATION_TIME)
                       \<and> expiration_default cfg payload \<noteq> None
                    then Suc (w_clock w) else w_clock w))))"
proof -
  have i1: "\<And>k. k \<noteq> ISSUER \<Longrightarrow> map_of p1 k = map_of payload k"
    by (rule default_issuer_frame [OF assms(1)])
  have i2: "map_of p1 ISSUER =
              (if truthy (py_get payload ISSUER) then map_of payload ISSUER
               else Some (identity_value (IDENTITY cfg)))"
    using assms(1)
    by (auto simp: default_issuer_cases map_of_py_set split: if_splits option.splits)
  have a1: "\<And>k. k \<noteq> AUDIENCE \<Longrightarrow> map_of p2 k = map_of p1 k"
    by (rule default_audience_frame [OF assms(2)])
  have t1: "map_of p1 TOKEN = map_of payload TOKEN"
    and u1: "map_of p1 AUDIENCE = map_of payload AUDIENCE"
    by (simp_all add: i1 claim_names)
  have a2: "map_of p2 AUDIENCE =
              (if truthy (py_get payload AUDIENCE) then map_of payload AUDIENCE
               else audience_default cfg payload)"
    using assms(2) py_get_cong [OF u1] u1 audience_default_frame [OF t1, of cfg]
    by (auto simp: default_audience_cases map_of_py_set split: if_splits option.splits)
  have t2: "map_of p2 TOKEN = map_of payload TOKEN"
    and x2: "map_of p2 EXPIRATION_TIME = map_of payload EXPIRATION_TIME"
    and s2: "map_of p2 ISSUED_AT = map_of payload ISSUED_AT"
    by (simp_all add: a1 i1 claim_names)
  have e1: "\<And>k. k \<noteq> EXPIRATION_TIME \<Longrightarrow> map_of p3 k = map_of p2 k"
    by (rule default_expiration_frame [OF assms(3)])
  have e2: "map_of p3 EXPIRATION_TIME =
              (if truthy (py_get payload EXPIRATION_TIME) then map_of payload EXPIRATION_TIME
               else case expiration_default cfg payload of
                      None \<Rightarrow> map_of payload EXPIRATION_TIME
                    | Some d \<Rightarrow> Some (PDateTime (utcnow env (w_clock w) + d)))"
    and e3: "w_clock w1 =
              (if \<not> truthy (py_get payload EXPIRATION_TIME)
                  \<and> expiration_default cfg payload \<noteq> None
               then Suc (w_clock w) else w_clock w)"
    using assms(3) py_get_cong [OF x2] x2 expiration_default_frame [OF t2, of cfg]
    by (auto simp: default_expiration_cases map_of_py_set dest: datetime_add_Inr
        split: if_splits option.splits sum.splits)
  have s3: "map_of p3 ISSUED_AT = map_of payload ISSUED_AT"
    using e1 [of ISSUED_AT] s2 by (simp add: claim_names)
  have d1: "\<And>k. k \<noteq> ISSUED_AT \<Longrightarrow> map_of p4 k = map_of p3 k"
    using default_issued_at_frame [of _ env p3 w1] assms(4) by simp
  have d2: "map_of p4 ISSUED_AT =
              (if truthy (py_get payload ISSUED_AT) then map_of payload ISSUED_AT
               else Some (PDateTime (utcnow env (w_clock w1))))"
    using assms(4) py_get_cong [OF s3] s3
    by (auto simp: default_issued_at_cases map_of_py_set split: if_splits)
  show "\<forall>k. k \<notin> {ISSUER, AUDIENCE, EXPIRATION_TIME, ISSUED_AT}
              \<longrightarrow> map_of p4 k = map_of payload k"
    by (simp add: d1 e1 a1 i1)
  show "map_of p4 ISSUER =
           (if truthy (py_get payload ISSUER) then map_of payload ISSUER
            else Some (identity_value (IDENTITY cfg)))"
    using i2 by (simp add: d1 e1 a1 claim_names)
  show "map_of p4 AUDIENCE =
           (if truthy (py_get payload AUDIENCE) then map_of payload AUDIENCE
            else audience_default cfg payload)"
    using a2 by (simp add: d1 e1 claim_names)
  show "map_of p4 EXPIRATION_TIME =
           (if truthy (py_get payload EXPIRATION_TIME) then map_of payload EXPIRATION_TIME
            else case expiration_default cfg payload of
                   None \<Rightarrow> map_of payload EXPIRATION_TIME
                 | Some d \<Rightarrow> Some (PDateTime (utcnow env (w_clock w) + d)))"
    using e2 by (simp add: d1 claim_names)
  show "map_of p4 ISSUED_AT =
           (if truthy (py_get payload ISSUED_AT) then map_of payload ISSUED_AT
            else Some (PDateTime (utcnow env
                   (if \<not> truthy (py_get payload EXPIRATION_TIME)
                       \<and> expiration_default cfg payload \<noteq> None
                    then Suc (w_clock w) else w_clock w))))"
    using d2 e3 by simp
qed

text \<open>The steps leave the issuer where the first has put it.\<close>

lemma issuer_kept:
  assumes "default_audience cfg p1 = Inr p2"
    and "default_expiration env cfg p2 w = (Inr p3, w1)"
    and "default_issued_at env p3 w1 = (p4, w2)"
  shows "py_get p4 ISSUER = py_get p1 ISSUER"
proof -
  have "map_of p4 ISSUER = map_of p3 ISSUER"
    using default_issued_at_frame [of ISSUER env p3 w1] assms(3) by (simp add: claim_names)
  moreover have "map_of p3 ISSUER = map_of p2 ISSUER"
    using default_expiration_frame [OF assms(2), of ISSUER] by (simp add: claim_names)
  moreover have "map_of p2 ISSUER = map_of p1 ISSUER"
    using default_audience_frame [OF assms(1), of ISSUER] by (simp add: claim_names)
  ultimately show ?thesis
    by (simp add: py_get_def)
qed


section \<open>Claim normalizer and signer: an issuer without a private key\<close>

text \<open>
  C5, as the code has it. Take a payload of a known token type whose issuer and
  audience are given or can be defaulted, whose defaulted expiration time (if one is
  defaulted) is a date in range, and whose issuer ends up a string. Then
  \<open>encode_jwt_token\<close> raises the \<open>RuntimeError\<close> of line 72, the class of its
  configuration errors, exactly when that issuer is no key of \<open>PRIVATE_KEYS\<close>; it raises
  the key resolver's \<open>InvalidKeyError\<close>, no keys defined, exactly when the issuer is a
  key of \<open>PRIVATE_KEYS\<close> with an empty reference or an empty list; and, passing no key
  identifier, it never raises the \<open>InvalidKeyError\<close> for no matching key.
\<close>

theorem encode_without_private_key:
  assumes "known_token_type payload"
    and "default_issuer cfg payload = Inr p1"
    and "default_audience cfg p1 = Inr p2"
    and "default_expiration env cfg p2 w = (Inr p3, w1)"
    and "py_get p1 ISSUER = PStr issuer"
  shows "((fst (encode_jwt_token env cfg payload w) =
             Inl (RuntimeError ''Private key for specified issuer was not found in settings''))
           = (map_of (PRIVATE_KEYS cfg) issuer = None))
       \<and> ((fst (encode_jwt_token env cfg payload w) =
             Inl (InvalidKeyError ''No keys defined for the given issuer''))
           = (map_of (PRIVATE_KEYS cfg) issuer \<noteq> None
              \<and> \<not> refs_truthy (map_of (PRIVATE_KEYS cfg) issuer)))
       \<and> fst (encode_jwt_token env cfg payload w)
            \<noteq> Inl (InvalidKeyError ''No key matches the given key_id'')"
proof -
  obtain p4 w2 where p4: "default_issued_at env p3 w1 = (p4, w2)"
    by (cases "default_issued_at env p3 w1")
  note e = encode_steps [OF assms(1-4) p4]
  have i: "py_get p4 ISSUER = PStr issuer"
    using issuer_kept [OF assms(3,4) p4] assms(5) by simp
  have s3: "fst (sign env cfg p4 w2) \<noteq> Inl (InvalidKeyError ''No key matches the given key_id'')"
    using sign_errors [of env cfg p4 w2] by auto
  show ?thesis
    using e sign_string_issuer [OF i, of env cfg w2] s3 by simp
qed

theorem encode_without_private_key_witness:
  "fst (encode_jwt_token sym_env svc_no_keys session_payload w0) =
     Inl (RuntimeError ''Private key for specified issuer was not found in settings'')
   \<and> fst (encode_jwt_token sym_env svc_empty_keys session_payload w0) =
     Inl (InvalidKeyError ''No keys defined for the given issuer'')"
proof -
  have k: "known_token_type session_payload"
    by (simp add: known_token_type_def py_get_def session_payload_def claim_names)
  have i: "default_issuer svc_no_keys session_payload
             = Inr (py_set session_payload ISSUER (PStr ''svc-a''))"
    "default_issuer svc_empty_keys session_payload
             = Inr (py_set session_payload ISSUER (PStr ''svc-a''))"
    by (simp_all add: default_issuer_def py_get_def session_payload_def claim_names
        svc_no_keys_def svc_empty_keys_def svc_a_def)
  have a: "default_audience svc_no_keys (py_set session_payload ISSUER (PStr ''svc-a''))
             = Inr (py_set (py_set session_payload ISSUER (PStr ''svc-a'')) AUDIENCE
                      (PList [PStr ''svc-a'']))"
    "default_audience svc_empty_keys (py_set session_payload ISSUER (PStr ''svc-a''))
             = Inr (py_set (py_set session_payload ISSUER (PStr ''svc-a'')) AUDIENCE
                      (PList [PStr ''svc-a'']))"
    by (simp_all add: default_audience_def py_get_def py_set_def session_payload_def
        claim_names svc_no_keys_def svc_empty_keys_def svc_a_def)
  have x: "default_expiration sym_env svc_no_keys
               (py_set (py_set session_payload ISSUER (PStr ''svc-a'')) AUDIENCE
                  (PList [PStr ''svc-a''])) w0
             = (Inr (py_set (py_set session_payload ISSUER (PStr ''svc-a'')) AUDIENCE
                      (PList [PStr ''svc-a''])), w0)"
    "default_expiration sym_env svc_empty_keys
               (py_set (py_set session_payload ISSUER (PStr ''svc-a'')) AUDIENCE
                  (PList [PStr ''svc-a''])) w0
             = (Inr (py_set (py_set session_payload ISSUER (PStr ''svc-a'')) AUDIENCE
                      (PList [PStr ''svc-a''])), w0)"
    by (simp_all add: default_expiration_def py_get_def py_set_def session_payload_def
        claim_names svc_no_keys_def svc_empty_keys_def svc_a_def)
  have g: "py_get (py_set session_payload ISSUER (PStr ''svc-a'')) ISSUER = PStr ''svc-a''"
    by (simp add: py_get_py_set)
  have m: "map_of (PRIVATE_KEYS svc_no_keys) ''svc-a'' = None"
    "map_of (PRIVATE_KEYS svc_empty_keys) ''svc-a'' \<noteq> None"
    "\<not> refs_truthy (map_of (PRIVATE_KEYS svc_empty_keys) ''svc-a'')"
    by (simp_all add: svc_no_keys_def svc_empty_keys_def)
  show ?thesis
    using encode_without_private_key [OF k i(1) a(1) x(1) g]
      encode_without_private_key [OF k i(2) a(2) x(2) g] m
    by simp
qed

text \<open>
  C5, as the spec has it, fails: with no private key configured for the issuer the call
  raises a \<open>RuntimeError\<close>, which is no key error.
\<close>

theorem encode_missing_key_is_runtime_error:
  "fst (encode_jwt_token sym_env svc_no_keys session_payload w0) =
     Inl (RuntimeError ''Private key for specified issuer was not found in settings'')
   \<and> \<not> is_key_error
         (RuntimeError ''Private key for specified issuer was not found in settings'')"
  by (simp add: model_defs sym_defs svc_no_keys_def claim_names Let_def)

section \<open>Claim normalizer and signer: the time to live\<close>





section \<open>Claim normalizer and signer: the caller's dict\<close>

text \<open>
  C10, as the code has it. After a call of \<open>encode_jwt_token\<close> that returned a token,
  the dict the caller passed holds the defaults themselves: a falsy issuer has become
  \<open>IDENTITY\<close>, a falsy audience the default audience of lines 53 to 58, a falsy
  expiration time the clock's reading plus the time to live when one applies, a falsy
  issued-at time the clock's next reading. Since \<open>jwt.encode\<close> works on the same dict,
  the expiration time, the issued-at time and a not-before time stand there as
  \<open>jwt.encode\<close> leaves them: a date has become its timestamp in whole seconds. A truthy
  issuer or audience, and every claim other than these five, is as it was; and the token
  was made from that very dict.
\<close>

theorem encode_mutates_payload:
  assumes "encode_jwt_token env cfg payload w = (Inr tok, payload', w')"
  shows "(\<forall>k. k \<notin> {ISSUER, AUDIENCE, EXPIRATION_TIME, ISSUED_AT, ''nbf''}
              \<longrightarrow> map_of payload' k = map_of payload k)
       \<and> map_of payload' ISSUER =
           (if truthy (py_get payload ISSUER) then map_of payload ISSUER
            else Some (identity_value (IDENTITY cfg)))
       \<and> map_of payload' AUDIENCE =
           (if truthy (py_get payload AUDIENCE) then map_of payload AUDIENCE
            else audience_default cfg payload)
       \<and> map_of payload' EXPIRATION_TIME =
           map_option as_int_date
             (if truthy (py_get payload EXPIRATION_TIME) then map_of payload EXPIRATION_TIME
              else case expiration_default cfg payload of
                     None \<Rightarrow> map_of payload EXPIRATION_TIME
                   | Some d \<Rightarrow> Some (PDateTime (utcnow env (w_clock w) + d)))
       \<and> map_of payload' ISSUED_AT =
           map_option as_int_date
             (if truthy (py_get payload ISSUED_AT) then map_of payload ISSUED_AT
              else Some (PDateTime (utcnow env
                     (if \<not> truthy (py_get payload EXPIRATION_TIME)
                         \<and> expiration_default cfg payload \<noteq> None
                      then Suc (w_clock w) else w_clock w))))
       \<and> map_of payload' ''nbf'' = map_option as_int_date (map_of payload ''nbf'')
       \<and> (\<exists>key kid. jwt_encode env payload' key (ENCODE_ALGORITHM cfg) [(KEY_ID, PStr kid)]
                        = Inr tok)"
proof -
  obtain p1 p2 p3 w1 p4 w2 where
    s: "default_issuer cfg payload = Inr p1" "default_audience cfg p1 = Inr p2"
      "default_expiration env cfg p2 w = (Inr p3, w1)" "default_issued_at env p3 w1 = (p4, w2)"
    and g: "sign env cfg p4 w2 = (Inr tok, payload', w')"
    using encode_success [OF assms] by blast
  have q: "payload' = jwt_int_dates p4"
    and j: "\<exists>key kid. jwt_encode env payload' key (ENCODE_ALGORITHM cfg) [(KEY_ID, PStr kid)]
                        = Inr tok"
    using sign_success [OF g] by blast+
  note n = normalized_claims [OF s]
  have m: "map_of payload' k =
             (if k \<in> set jwt_time_claims then map_option as_int_date (map_of p4 k)
              else map_of p4 k)" for k
    by (simp add: q map_of_jwt_int_dates)
  have c: "ISSUER \<notin> set jwt_time_claims" "AUDIENCE \<notin> set jwt_time_claims"
    "EXPIRATION_TIME \<in> set jwt_time_claims" "ISSUED_AT \<in> set jwt_time_claims"
    "''nbf'' \<in> set jwt_time_claims"
    "''nbf'' \<notin> {ISSUER, AUDIENCE, EXPIRATION_TIME, ISSUED_AT}"
    by (simp_all add: jwt_time_claims_def claim_names)
  have o: "\<forall>k. k \<notin> {ISSUER, AUDIENCE, EXPIRATION_TIME, ISSUED_AT, ''nbf''}
              \<longrightarrow> map_of payload' k = map_of payload k"
    using n(1) by (auto simp: m jwt_time_claims_def claim_names)
  have b: "map_of p4 ''nbf'' = map_of payload ''nbf''"
    using n(1) c(6) by blast
  show ?thesis
    using o j n(2) n(3) n(4) n(5) b by (simp add: m c)
qed

theorem encode_mutates_payload_witness:
  "encode_jwt_token sym_env svc_policy session_payload w0 =
     (Inr (SymToken [(KEY_ID, PStr ''a1'')]
             (session_payload @
                [(ISSUER, PStr ''svc-a''), (AUDIENCE, PList [PStr ''svc-a'', PStr ''web'']),
                 (EXPIRATION_TIME, PInt 4600), (ISSUED_AT, PInt 1001)]) ''a1''),
      session_payload @
        [(ISSUER, PStr ''svc-a''), (AUDIENCE, PList [PStr ''svc-a'', PStr ''web'']),
         (EXPIRATION_TIME, PInt 4600), (ISSUED_AT, PInt 1001)],
      \<lparr>w_clock = 2, w_trace = [KeyLookup ''svc-a'' None, FileOpened ''a1.pem'']\<rparr>)
   \<and> map_of (session_payload @
        [(ISSUER, PStr ''svc-a''), (AUDIENCE, PList [PStr ''svc-a'', PStr ''web'']),
         (EXPIRATION_TIME, PInt 4600), (ISSUED_AT, PInt 1001)]) EMAIL
      = map_of session_payload EMAIL
   \<and> map_of (session_payload @
        [(ISSUER, PStr ''svc-a''), (AUDIENCE, PList [PStr ''svc-a'', PStr ''web'']),
         (EXPIRATION_TIME, PInt 4600), (ISSUED_AT, PInt 1001)]) ISSUER
      = Some (identity_value (IDENTITY svc_policy))"
proof -
  have e: "encode_jwt_token sym_env svc_policy session_payload w0 =
     (Inr (SymToken [(KEY_ID, PStr ''a1'')]
             (session_payload @
                [(ISSUER, PStr ''svc-a''), (AUDIENCE, PList [PStr ''svc-a'', PStr ''web'']),
                 (EXPIRATION_TIME, PInt 4600), (ISSUED_AT, PInt 1001)]) ''a1''),
      session_payload @
        [(ISSUER, PStr ''svc-a''), (AUDIENCE, PList [PStr ''svc-a'', PStr ''web'']),
         (EXPIRATION_TIME, PInt 4600), (ISSUED_AT, PInt 1001)],
      \<lparr>w_clock = 2, w_trace = [KeyLookup ''svc-a'' None, FileOpened ''a1.pem'']\<rparr>)"
    by (simp add: model_defs sym_defs svc_policy_def claim_names Let_def)
  have m: "EMAIL \<notin> {ISSUER, AUDIENCE, EXPIRATION_TIME, ISSUED_AT, ''nbf''}"
    and f: "\<not> truthy (py_get session_payload ISSUER)"
    by (simp_all add: py_get_def session_payload_def claim_names)
  show ?thesis
    using encode_mutates_payload [OF e] e m f by simp
qed

text \<open>
  C10, as the spec has it, fails: a not-before time is none of the four defaulted
  claims, and after a call that returned a token the caller's dict holds a timestamp
  where the caller had put a date.
\<close>

theorem encode_rewrites_not_before:
  "fst (encode_jwt_token sym_env svc_a nbf_payload w0) =
     Inr (SymToken [(KEY_ID, PStr ''a1'')]
            (session_payload @
               [(''nbf'', PInt 2000), (ISSUER, PStr ''svc-a''),
                (AUDIENCE, PList [PStr ''svc-a'']), (ISSUED_AT, PInt 1000)]) ''a1'')
   \<and> map_of nbf_payload ''nbf'' = Some (PDateTime 2000500000)
   \<and> map_of (fst (snd (encode_jwt_token sym_env svc_a nbf_payload w0))) ''nbf''
       = Some (PInt 2000)"
  by (simp add: model_defs sym_defs nbf_payload_def claim_names Let_def)

section \<open>Round trip\<close>







text \<open>
  The other conditions are needed as well. With the key pairs in place and no
  allow-list, a service rejects the session token it has issued in another issuer's
  name, and its library rejects a token whose audience leaves the service out.
\<close>

lemma round_trip_rejected_for_foreign_issuer:
  "fst (encode_jwt_token sym_env svc_proxy proxy_payload w0) =
     Inr (SymToken [(KEY_ID, PStr ''b1'')]
            (proxy_payload @ [(AUDIENCE, PList [PStr ''svc-a'']), (ISSUED_AT, PInt 1000)])
            ''b1'')
   \<and> fst (decode_jwt_token sym_env svc_proxy
            (SymToken [(KEY_ID, PStr ''b1'')]
               (proxy_payload @ [(AUDIENCE, PList [PStr ''svc-a'']), (ISSUED_AT, PInt 1000)])
               ''b1'') w0)
       = Inl (InvalidTokenError ''Only authorization tokens are accepted from other issuers'')"
  by (simp add: model_defs sym_defs svc_proxy_def proxy_payload_def claim_names Let_def)

lemma round_trip_rejected_for_audience:
  "fst (encode_jwt_token sym_env svc_web session_payload w0) =
     Inr (SymToken [(KEY_ID, PStr ''a1'')]
            (session_payload @
               [(ISSUER, PStr ''svc-a''), (AUDIENCE, PList [PStr ''web'']),
                (ISSUED_AT, PInt 1000)]) ''a1'')
   \<and> fst (decode_jwt_token sym_env svc_web
            (SymToken [(KEY_ID, PStr ''a1'')]
               (session_payload @
                  [(ISSUER, PStr ''svc-a''), (AUDIENCE, PList [PStr ''web'']),
                   (ISSUED_AT, PInt 1000)]) ''a1'') w0)
       = Inl (ExternalError ''InvalidAudienceError'')"
  by (simp add: model_defs sym_defs svc_web_def claim_names Let_def)

end
